theory Spec2Isabelle
  imports Main "HOL-Library.AList"
begin

section \<open>The room coordinator of src/api/room.ts\<close>

text \<open>
  The class \<open>Room\<close> is a durable object: one instance owns the stored record of one
  room (\<open>state.storage\<close>, slot \<open>'roomData'\<close>) and the in-memory table \<open>sessions\<close> of
  open WebSockets. Every method is modelled as a function on an explicit state, the
  record \<open>world\<close> below. The state also carries what the environment decides (which
  sockets throw on \<open>send\<close>) and a trace of the observable effects in program order.

  Not modelled: failures of the storage calls themselves, and the parsing of request
  bodies and query strings (a request arrives already decoded).
\<close>

subsection \<open>Data\<close>

text \<open>A WebSocket object is known by its identity only.\<close>

type_synonym ws = nat

text \<open>
  \<open>interface RoomData\<close>. \<open>connectedUsers\<close> may be absent on an old record (the code
  tests \<open>!roomData.connectedUsers\<close>), hence the option. A JavaScript object used as a
  dictionary is the map of its own properties; how the code reads and writes
  \<open>connectedUsers\<close> through that map is defined below (\<open>assign\<close>, \<open>truthy\<close>).
  \<open>storage.put\<close> and \<open>storage.get\<close> copy own properties and nothing else.
  The values of \<open>settings\<close> are opaque (\<open>'v\<close>).
\<close>

record 'v RoomData =
  key :: string
  users :: "string list"
  moderator :: string
  connectedUsers :: "(string \<rightharpoonup> bool) option"
  settings :: "string \<rightharpoonup> 'v"

text \<open>\<open>interface SessionInfo\<close>.\<close>

record SessionInfo =
  webSocket :: ws
  roomKey :: string
  userName :: string

text \<open>
  The messages the room sends, one constructor per \<open>type\<close> tag. \<open>JSON.stringify\<close> is
  applied at the moment of the call, so a message holds a snapshot of \<open>roomData\<close>.
\<close>

datatype 'v message =
    Initialize "'v RoomData option"
  | UserJoined string "'v RoomData"
  | UserConnectionStatus string bool "'v RoomData"
  | NewModerator string "'v RoomData"
  | SettingsUpdated "string \<rightharpoonup> 'v" "'v RoomData"
  | ErrorMessage string

text \<open>Observable effects, in the order the program performs them.\<close>

datatype 'v event =
    GateEnter
  | GateExit
  | StoragePut "'v RoomData"
  | Accept ws
  | BroadcastCall "'v message"
  | Sent ws "'v message"
  | SendThrew ws "'v message"

record 'v world =
  storage :: "'v RoomData option"
  sessions :: "(ws \<times> SessionInfo) list"
  sendThrows :: "ws \<Rightarrow> bool"
  trace :: "'v event list"

datatype error = SocketSendError

datatype 'v body =
    Text string
  | ErrorJson string
  | RoomJson "'v RoomData"
  | SettingsJson "string \<rightharpoonup> 'v"
  | Upgraded ws

datatype 'v response = Response nat "'v body"

text \<open>
  A decoded request. For an upgrade request the two query parameters may be missing, and
  the two sockets are the ones \<open>new WebSocketPair()\<close> returns (client, server).
\<close>

datatype 'v request =
    WebSocketUpgrade "string option" "string option" ws ws
  | PostInitialize string string
  | PostJoin string
  | GetSettings
  | PutSettings string "string \<rightharpoonup> 'v"
  | OtherRequest

text \<open>
  What the message listener gets out of \<open>JSON.parse\<close>: either the \<open>try\<close> block throws
  (with that error text), or there is an object with a \<open>type\<close> and the properties that
  spreading its \<open>settings\<close> yields.
\<close>

datatype 'v incoming =
    Unparseable string
  | Envelope string "string \<rightharpoonup> 'v"

subsection \<open>Primitive effects\<close>

definition emit :: "'v event \<Rightarrow> 'v world \<Rightarrow> 'v world" where
  "emit e w = w\<lparr>trace := trace w @ [e]\<rparr>"

text \<open>\<open>state.storage.put('roomData', r)\<close>.\<close>

definition storage_put :: "'v RoomData \<Rightarrow> 'v world \<Rightarrow> 'v world" where
  "storage_put r w = emit (StoragePut r) (w\<lparr>storage := Some r\<rparr>)"

text \<open>
  \<open>state.blockConcurrencyWhile(callback)\<close>: the callback runs between the two gate
  events.
\<close>

definition blockConcurrencyWhile ::
  "('v world \<Rightarrow> 'a \<times> 'v world) \<Rightarrow> 'v world \<Rightarrow> 'a \<times> 'v world" where
  "blockConcurrencyWhile f w =
     (case f (emit GateEnter w) of (x, w') \<Rightarrow> (x, emit GateExit w'))"

text \<open>One \<open>webSocket.send\<close>: it throws or it delivers.\<close>

definition send :: "ws \<Rightarrow> 'v message \<Rightarrow> 'v world \<Rightarrow> (error + unit) \<times> 'v world" where
  "send sock m w =
     (if sendThrows w sock then (Inl SocketSendError, emit (SendThrew sock m) w)
      else (Inr (), emit (Sent sock m) w))"

text \<open>
  \<open>broadcast\<close>: the loop over \<open>sessions.values()\<close>, each \<open>send\<close> inside its own
  \<open>try\<close>/\<open>catch\<close> whose handler is empty.
\<close>

fun broadcast_loop :: "'v message \<Rightarrow> SessionInfo list \<Rightarrow> 'v world \<Rightarrow> 'v world" where
  "broadcast_loop m [] w = w"
| "broadcast_loop m (s # ss) w =
     (case send (webSocket s) m w of
        (Inl err, w') \<Rightarrow> broadcast_loop m ss w'
      | (Inr u, w') \<Rightarrow> broadcast_loop m ss w')"

definition broadcast :: "'v message \<Rightarrow> 'v world \<Rightarrow> 'v world" where
  "broadcast m w = broadcast_loop m (map snd (sessions w)) (emit (BroadcastCall m) w)"

subsection \<open>Reading and writing \<open>connectedUsers\<close>\<close>

text \<open>
  \<open>connectedUsers\<close> is a plain object, so it inherits the properties of
  \<open>Object.prototype\<close>. These are their names.
\<close>

definition inherited_names :: "string list" where
  "inherited_names =
     [''constructor'', ''__defineGetter__'', ''__defineSetter__'', ''hasOwnProperty'',
      ''__lookupGetter__'', ''__lookupSetter__'', ''isPrototypeOf'',
      ''propertyIsEnumerable'', ''toString'', ''valueOf'', ''__proto__'',
      ''toLocaleString'']"

text \<open>
  \<open>obj[k] = v\<close> with a boolean \<open>v\<close>. An own property is overwritten. Otherwise the
  assignment creates an own property, except for \<open>__proto__\<close>: that name is inherited as
  an accessor, the assignment calls its setter, and the setter ignores a value that is
  neither an object nor \<open>null\<close>. Nothing is stored then.
\<close>

definition assign :: "string \<Rightarrow> bool \<Rightarrow> (string \<rightharpoonup> bool) \<Rightarrow> (string \<rightharpoonup> bool)" where
  "assign k v obj = (if k = ''__proto__'' \<and> obj k = None then obj else obj(k \<mapsto> v))"

text \<open>
  Whether \<open>obj[k]\<close> is truthy: an own property counts by its value; without one, an
  inherited name reads as a function (or, for \<open>__proto__\<close>, as the prototype object),
  which is truthy, and any other name reads as \<open>undefined\<close>.
\<close>

definition truthy :: "(string \<rightharpoonup> bool) \<Rightarrow> string \<Rightarrow> bool" where
  "truthy obj k = (case obj k of Some b \<Rightarrow> b | None \<Rightarrow> k \<in> set inherited_names)"

subsection \<open>The record helpers repeated in the handlers\<close>

text \<open>
  \<open>roomData.connectedUsers = {}; for (const user of roomData.users)
  roomData.connectedUsers[user] = false;\<close>
\<close>

definition backfill :: "string list \<Rightarrow> (string \<rightharpoonup> bool)" where
  "backfill us = foldl (\<lambda>obj user. assign user False obj) Map.empty us"

text \<open>The map in use after \<open>if (!roomData.connectedUsers) { ... }\<close>.\<close>

definition reconciled :: "'v RoomData \<Rightarrow> (string \<rightharpoonup> bool)" where
  "reconciled r = (case connectedUsers r of None \<Rightarrow> backfill (users r) | Some m \<Rightarrow> m)"

text \<open>\<open>if (!roomData.users.includes(name)) roomData.users.push(name)\<close>.\<close>

definition push_absent :: "string \<Rightarrow> string list \<Rightarrow> string list" where
  "push_absent name us = (if name \<in> set us then us else us @ [name])"

definition empty_room :: "'v RoomData" where
  "empty_room = \<lparr>key = [], users = [], moderator = [], connectedUsers = Some Map.empty,
                  settings = Map.empty\<rparr>"

subsection \<open>The constructor\<close>

definition constructor_body :: "'v world \<Rightarrow> unit \<times> 'v world" where
  "constructor_body w =
     (case storage w of
        None \<Rightarrow> ((), storage_put empty_room w)
      | Some r \<Rightarrow>
          (case connectedUsers r of
             None \<Rightarrow> ((), storage_put (r\<lparr>connectedUsers := Some (backfill (users r))\<rparr>) w)
           | Some m \<Rightarrow> ((), w)))"

definition constructor :: "'v RoomData option \<Rightarrow> (ws \<Rightarrow> bool) \<Rightarrow> 'v world" where
  "constructor stored thr =
     snd (blockConcurrencyWhile constructor_body
            \<lparr>storage = stored, sessions = [], sendThrows = thr, trace = []\<rparr>)"

subsection \<open>The request handlers of \<open>fetch\<close>\<close>

text \<open>
  In \<open>/initialize\<close> the object literal \<open>{ [moderator]: true }\<close> has a computed key,
  which defines an own property whatever the name is.
\<close>

definition initialize_body :: "string \<Rightarrow> string \<Rightarrow> 'v world \<Rightarrow> 'v response \<times> 'v world" where
  "initialize_body rk m w =
     (if (case storage w of None \<Rightarrow> False | Some r \<Rightarrow> key r \<noteq> [])
      then (Response 400 (ErrorJson ''Room already exists''), w)
      else
        (let roomData = \<lparr>key = rk, users = [m], moderator = m,
                          connectedUsers = Some [m \<mapsto> True], settings = Map.empty\<rparr>
         in (Response 200 (RoomJson roomData), storage_put roomData w)))"

definition join_body :: "string \<Rightarrow> 'v world \<Rightarrow> 'v response \<times> 'v world" where
  "join_body name w =
     (case storage w of
        None \<Rightarrow> (Response 404 (ErrorJson ''Room not found''), w)
      | Some r \<Rightarrow>
          if key r = [] then (Response 404 (ErrorJson ''Room not found''), w)
          else
            (let roomData = r\<lparr>users := push_absent name (users r),
                              connectedUsers := Some (assign name True (reconciled r))\<rparr>
             in (Response 200 (RoomJson roomData),
                 broadcast (UserJoined name roomData) (storage_put roomData w))))"

definition get_settings_body :: "'v world \<Rightarrow> 'v response \<times> 'v world" where
  "get_settings_body w =
     (case storage w of
        None \<Rightarrow> (Response 404 (ErrorJson ''Room not found''), w)
      | Some r \<Rightarrow>
          if key r = [] then (Response 404 (ErrorJson ''Room not found''), w)
          else (Response 200 (SettingsJson (settings r)), w))"

definition put_settings_body ::
  "string \<Rightarrow> (string \<rightharpoonup> 'v) \<Rightarrow> 'v world \<Rightarrow> 'v response \<times> 'v world" where
  "put_settings_body name s w =
     (case storage w of
        None \<Rightarrow> (Response 404 (ErrorJson ''Room not found''), w)
      | Some r \<Rightarrow>
          if key r = [] then (Response 404 (ErrorJson ''Room not found''), w)
          else if moderator r \<noteq> name
          then (Response 403 (ErrorJson ''Only the moderator can update settings''), w)
          else
            (let roomData = r\<lparr>settings := settings r ++ s\<rparr>
             in (Response 200 (SettingsJson (settings roomData)),
                 broadcast (SettingsUpdated (settings roomData) roomData)
                   (storage_put roomData w))))"

subsection \<open>\<open>handleSession\<close> and its two listeners\<close>

definition connect_body :: "string \<Rightarrow> 'v world \<Rightarrow> unit \<times> 'v world" where
  "connect_body name w =
     (case storage w of
        None \<Rightarrow> ((), w)
      | Some r \<Rightarrow>
          (let roomData = r\<lparr>users := push_absent name (users r),
                            connectedUsers := Some (assign name True (reconciled r))\<rparr>
           in ((), broadcast (UserConnectionStatus name True roomData)
                     (storage_put roomData w))))"

definition handleSession ::
  "ws \<Rightarrow> string \<Rightarrow> string \<Rightarrow> 'v world \<Rightarrow> (error + unit) \<times> 'v world" where
  "handleSession sock rk name w =
     (let w1 = w\<lparr>sessions := AList.update sock
                     \<lparr>webSocket = sock, roomKey = rk, userName = name\<rparr> (sessions w)\<rparr>;
          w2 = emit (Accept sock) w1;
          w3 = snd (blockConcurrencyWhile (connect_body name) w2)
      in send sock (Initialize (storage w3)) w3)"

definition update_settings_body ::
  "string \<Rightarrow> (string \<rightharpoonup> 'v) \<Rightarrow> 'v world \<Rightarrow> unit \<times> 'v world" where
  "update_settings_body name s w =
     (case storage w of
        None \<Rightarrow> ((), w)
      | Some r \<Rightarrow>
          if moderator r \<noteq> name then ((), w)
          else
            (let roomData = r\<lparr>settings := settings r ++ s\<rparr>
             in ((), broadcast (SettingsUpdated (settings roomData) roomData)
                       (storage_put roomData w))))"

definition handleUpdateSettings :: "string \<Rightarrow> (string \<rightharpoonup> 'v) \<Rightarrow> 'v world \<Rightarrow> 'v world" where
  "handleUpdateSettings name s w = snd (blockConcurrencyWhile (update_settings_body name s) w)"

text \<open>
  The \<open>message\<close> listener that \<open>handleSession sock rk name\<close> registers. An error thrown
  in the \<open>try\<close> block is reported to this socket only.
\<close>

definition messageListener :: "ws \<Rightarrow> string \<Rightarrow> 'v incoming \<Rightarrow> 'v world \<Rightarrow> 'v world" where
  "messageListener sock name msg w =
     (case msg of
        Unparseable e \<Rightarrow> snd (send sock (ErrorMessage e) w)
      | Envelope ty s \<Rightarrow>
          if ty = ''updateSettings'' then handleUpdateSettings name s w else w)"

definition close_body :: "string \<Rightarrow> 'v world \<Rightarrow> unit \<times> 'v world" where
  "close_body name w =
     (case storage w of
        None \<Rightarrow> ((), w)
      | Some r \<Rightarrow>
          (let cu = assign name False (reconciled r);
               r1 = r\<lparr>connectedUsers := Some cu\<rparr>;
               w1 = broadcast (UserConnectionStatus name False r1) (storage_put r1 w)
           in if name = moderator r1
              then (case filter (\<lambda>user. truthy cu user) (users r1) of
                      [] \<Rightarrow> ((), w1)
                    | c # cs \<Rightarrow>
                        (let r2 = r1\<lparr>moderator := c\<rparr>
                         in ((), broadcast (NewModerator c r2) (storage_put r2 w1))))
              else ((), w1)))"

text \<open>The \<open>close\<close> listener that \<open>handleSession sock rk name\<close> registers.\<close>

definition closeListener :: "ws \<Rightarrow> string \<Rightarrow> 'v world \<Rightarrow> 'v world" where
  "closeListener sock name w =
     (let w1 = w\<lparr>sessions := AList.delete sock (sessions w)\<rparr>;
          stillConnected = list_ex (\<lambda>s. userName s = name) (map snd (sessions w1))
      in if \<not> stillConnected then snd (blockConcurrencyWhile (close_body name) w1) else w1)"

subsection \<open>\<open>fetch\<close>\<close>

text \<open>
  The upgrade branch comes first; \<open>!roomKey || !userName\<close> holds for a missing
  parameter and for an empty one.
\<close>

fun fetch :: "'v request \<Rightarrow> 'v world \<Rightarrow> (error + 'v response) \<times> 'v world" where
  "fetch (WebSocketUpgrade rk name client server) w =
     (case (rk, name) of
        (Some k, Some n) \<Rightarrow>
          if k = [] \<or> n = [] then (Inr (Response 400 (Text ''Missing room key or user name'')), w)
          else (case handleSession server k n w of
                  (Inl err, w') \<Rightarrow> (Inl err, w')
                | (Inr u, w') \<Rightarrow> (Inr (Response 101 (Upgraded client)), w'))
      | _ \<Rightarrow> (Inr (Response 400 (Text ''Missing room key or user name'')), w))"
| "fetch (PostInitialize rk m) w =
     (case blockConcurrencyWhile (initialize_body rk m) w of (resp, w') \<Rightarrow> (Inr resp, w'))"
| "fetch (PostJoin name) w =
     (case blockConcurrencyWhile (join_body name) w of (resp, w') \<Rightarrow> (Inr resp, w'))"
| "fetch GetSettings w =
     (case blockConcurrencyWhile get_settings_body w of (resp, w') \<Rightarrow> (Inr resp, w'))"
| "fetch (PutSettings name s) w =
     (case blockConcurrencyWhile (put_settings_body name s) w of (resp, w') \<Rightarrow> (Inr resp, w'))"
| "fetch OtherRequest w = (Inr (Response 404 (Text ''Not found'')), w)"

subsection \<open>Operations as the environment triggers them\<close>

text \<open>
  A request reaches \<open>fetch\<close>; a message or a close event on a socket reaches the listener
  that \<open>handleSession\<close> registered for it, which remembers the socket and the user name.
\<close>

datatype 'v operation =
    Request "'v request"
  | ChannelMessage ws string "'v incoming"
  | ChannelClose ws string

fun run :: "'v operation \<Rightarrow> 'v world \<Rightarrow> 'v world" where
  "run (Request rq) w = snd (fetch rq w)"
| "run (ChannelMessage sock name msg) w = messageListener sock name msg w"
| "run (ChannelClose sock name) w = closeListener sock name w"

subsection \<open>Vocabulary of the properties\<close>

text \<open>The events an operation added to the trace.\<close>

definition new_events :: "'v world \<Rightarrow> 'v world \<Rightarrow> 'v event list" where
  "new_events w w' = drop (length (trace w)) (trace w')"

text \<open>What one pass of the broadcast loop adds: one event per session, in order.\<close>

definition delivery :: "(ws \<Rightarrow> bool) \<Rightarrow> 'v message \<Rightarrow> SessionInfo \<Rightarrow> 'v event" where
  "delivery thr m s = (if thr (webSocket s) then SendThrew (webSocket s) m else Sent (webSocket s) m)"

definition deliveries :: "'v message \<Rightarrow> 'v world \<Rightarrow> 'v event list" where
  "deliveries m w = map (delivery (sendThrows w) m) (map snd (sessions w))"

text \<open>The sockets registered for a user name.\<close>

definition sessions_of :: "string \<Rightarrow> 'v world \<Rightarrow> ws list" where
  "sessions_of name w = map fst (filter (\<lambda>p. userName (snd p) = name) (sessions w))"

text \<open>What the stored record says about a user; \<open>None\<close> when there is no entry.\<close>

definition connected_entry :: "'v world \<Rightarrow> string \<Rightarrow> bool option" where
  "connected_entry w name =
     (case storage w of
        None \<Rightarrow> None
      | Some r \<Rightarrow> (case connectedUsers r of None \<Rightarrow> None | Some m \<Rightarrow> m name))"

definition stored_settings :: "'v world \<Rightarrow> string \<Rightarrow> 'v option" where
  "stored_settings w k = (case storage w of None \<Rightarrow> None | Some r \<Rightarrow> settings r k)"

definition stored_users :: "'v world \<Rightarrow> string list" where
  "stored_users w = (case storage w of None \<Rightarrow> [] | Some r \<Rightarrow> users r)"

fun is_status_broadcast :: "'v event \<Rightarrow> bool" where
  "is_status_broadcast (BroadcastCall (UserConnectionStatus u b r)) = True"
| "is_status_broadcast e = False"

fun is_moderator_broadcast :: "'v event \<Rightarrow> bool" where
  "is_moderator_broadcast (BroadcastCall (NewModerator u r)) = True"
| "is_moderator_broadcast e = False"

fun is_put :: "'v event \<Rightarrow> bool" where
  "is_put (StoragePut r) = True"
| "is_put e = False"

text \<open>
  The record a message of one of the four broadcast kinds carries. The two other kinds
  are only ever sent to one socket.
\<close>

fun carried :: "'v message \<Rightarrow> 'v RoomData option" where
  "carried (UserJoined n r) = Some r"
| "carried (UserConnectionStatus n b r) = Some r"
| "carried (NewModerator n r) = Some r"
| "carried (SettingsUpdated s r) = Some r"
| "carried (Initialize x) = None"
| "carried (ErrorMessage e) = None"

text \<open>
  The events that make up a broadcast: the call itself, and every attempt to deliver a
  message of a broadcast kind, successful or not.
\<close>

fun broadcast_part :: "'v event \<Rightarrow> bool" where
  "broadcast_part (BroadcastCall m) = True"
| "broadcast_part (Sent k m) = (carried m \<noteq> None)"
| "broadcast_part (SendThrew k m) = (carried m \<noteq> None)"
| "broadcast_part e = False"

fun event_record :: "'v event \<Rightarrow> 'v RoomData option" where
  "event_record (BroadcastCall m) = carried m"
| "event_record (Sent k m) = carried m"
| "event_record (SendThrew k m) = carried m"
| "event_record e = None"

text \<open>
  Where the gate stands while a trace is replayed: released, or held together with the
  record last written in the current section, if any.
\<close>

datatype 'v gate = Released | Held "'v RoomData option"

fun gate_after :: "'v gate \<Rightarrow> 'v event \<Rightarrow> 'v gate" where
  "gate_after g GateEnter = Held None"
| "gate_after g GateExit = Released"
| "gate_after Released (StoragePut r) = Released"
| "gate_after (Held x) (StoragePut r) = Held (Some r)"
| "gate_after g e = g"

text \<open>
  \<open>broadcasts_inside g es\<close>: replaying \<open>es\<close> from gate state \<open>g\<close>, every event of a
  broadcast happens while the gate is held, and the record it carries is the one last
  written in that section. \<open>broadcasts_released g es\<close>: every event of a broadcast
  happens while the gate is released.
\<close>

fun broadcasts_inside :: "'v gate \<Rightarrow> 'v event list \<Rightarrow> bool" where
  "broadcasts_inside g [] = True"
| "broadcasts_inside g (e # es) =
     ((if broadcast_part e then event_record e \<noteq> None \<and> g = Held (event_record e) else True)
      \<and> broadcasts_inside (gate_after g e) es)"

fun broadcasts_released :: "'v gate \<Rightarrow> 'v event list \<Rightarrow> bool" where
  "broadcasts_released g [] = True"
| "broadcasts_released g (e # es) =
     ((if broadcast_part e then g = Released else True)
      \<and> broadcasts_released (gate_after g e) es)"

text \<open>
  The first member of a list of users whose entry is \<open>true\<close>, written after the
  specification's words (earliest joiner among those still connected).
\<close>

definition first_connected :: "(string \<rightharpoonup> bool) \<Rightarrow> string list \<Rightarrow> string option" where
  "first_connected cu us = find (\<lambda>u. cu u = Some True) us"

subsection \<open>Concrete rooms for the examples\<close>

definition room_abc :: "nat RoomData" where
  "room_abc = \<lparr>key = ''K1'', users = [''A'', ''B'', ''C''], moderator = ''A'',
               connectedUsers = Some [''A'' \<mapsto> True, ''B'' \<mapsto> True, ''C'' \<mapsto> True],
               settings = [''x'' \<mapsto> 1]\<rparr>"

definition session :: "ws \<Rightarrow> string \<Rightarrow> ws \<times> SessionInfo" where
  "session k name = (k, \<lparr>webSocket = k, roomKey = ''K1'', userName = name\<rparr>)"

definition never :: "ws \<Rightarrow> bool" where
  "never k = False"

definition world_abc :: "nat world" where
  "world_abc = \<lparr>storage = Some room_abc,
                sessions = [session 11 ''A'', session 12 ''B'', session 13 ''C''],
                sendThrows = never, trace = []\<rparr>"

text \<open>The two settings updates of the specification's example, one on each path.\<close>

definition world_y :: "nat world" where
  "world_y = run (Request (PutSettings ''A'' [''y'' \<mapsto> 2])) world_abc"

definition world_xy :: "nat world" where
  "world_xy = run (ChannelMessage 11 ''A'' (Envelope ''updateSettings'' [''x'' \<mapsto> 3])) world_y"

text \<open>A room instance activated on an empty store.\<close>

definition world_fresh :: "nat world" where
  "world_fresh = constructor None never"

text \<open>The status of the answer to a request; \<open>None\<close> when \<open>fetch\<close> throws.\<close>

fun status_of :: "error + 'v response \<Rightarrow> nat option" where
  "status_of (Inl e) = None"
| "status_of (Inr (Response n b)) = Some n"

definition stored_key :: "'v world \<Rightarrow> string" where
  "stored_key w = (case storage w of None \<Rightarrow> [] | Some r \<Rightarrow> key r)"

text \<open>The same room when the socket of B throws on every \<open>send\<close>.\<close>

definition closed_12 :: "ws \<Rightarrow> bool" where
  "closed_12 k = (k = 12)"

definition world_broken :: "nat world" where
  "world_broken = world_abc\<lparr>sendThrows := closed_12\<rparr>"

definition notice :: "nat message" where
  "notice = NewModerator ''B'' room_abc"

text \<open>A record written without entries for some users, and one without the map.\<close>

definition room_partial :: "nat RoomData" where
  "room_partial = \<lparr>key = ''K1'', users = [''A'', ''B''], moderator = ''A'',
                   connectedUsers = Some [''A'' \<mapsto> True], settings = Map.empty\<rparr>"

definition world_partial :: "nat world" where
  "world_partial = \<lparr>storage = Some room_partial, sessions = [], sendThrows = never, trace = []\<rparr>"

definition room_legacy :: "nat RoomData" where
  "room_legacy = room_partial\<lparr>connectedUsers := None\<rparr>"

definition world_legacy :: "nat world" where
  "world_legacy = world_partial\<lparr>storage := Some room_legacy\<rparr>"

definition stored_moderator :: "'v world \<Rightarrow> string" where
  "stored_moderator w = (case storage w of None \<Rightarrow> [] | Some r \<Rightarrow> moderator r)"

text \<open>
  Rooms reached from a fresh instance by requests the code accepts, with a user whose
  name is \<open>__proto__\<close>: the room created by A; A then opens a channel; the other user
  then joins, or opens one channel, or two.
\<close>

definition world_created :: "nat world" where
  "world_created = run (Request (PostInitialize ''K1'' ''A'')) world_fresh"

definition world_moderator_online :: "nat world" where
  "world_moderator_online =
     run (Request (WebSocketUpgrade (Some ''K1'') (Some ''A'') 10 11)) world_created"

definition world_proto_joined :: "nat world" where
  "world_proto_joined = run (Request (PostJoin ''__proto__'')) world_moderator_online"

definition world_proto_online :: "nat world" where
  "world_proto_online =
     run (Request (WebSocketUpgrade (Some ''K1'') (Some ''__proto__'') 20 12)) world_created"

definition world_proto_two_tabs :: "nat world" where
  "world_proto_two_tabs =
     run (Request (WebSocketUpgrade (Some ''K1'') (Some ''__proto__'') 22 14)) world_proto_online"

text \<open>Whether the stored record reads a user as connected, the way the failover filter reads it.\<close>

definition reads_connected :: "'v world \<Rightarrow> string \<Rightarrow> bool" where
  "reads_connected w name =
     (case storage w of
        None \<Rightarrow> False
      | Some r \<Rightarrow> (case connectedUsers r of None \<Rightarrow> False | Some obj \<Rightarrow> truthy obj name))"

section \<open>Basic facts about the effects\<close>

lemma trace_emit [simp]: "trace (emit e w) = trace w @ [e]"
  by (simp add: emit_def)

lemma storage_emit [simp]: "storage (emit e w) = storage w"
  by (simp add: emit_def)

lemma sessions_emit [simp]: "sessions (emit e w) = sessions w"
  by (simp add: emit_def)

lemma sendThrows_emit [simp]: "sendThrows (emit e w) = sendThrows w"
  by (simp add: emit_def)

text \<open>The loop adds one delivery event per session and changes nothing else.\<close>

lemma broadcast_loop_eq:
  "broadcast_loop m ss w = w\<lparr>trace := trace w @ map (delivery (sendThrows w) m) ss\<rparr>"
proof (induction ss arbitrary: w)
  case Nil
  show ?case by simp
next
  case (Cons s ss)
  show ?case
    by (simp add: Cons.IH send_def delivery_def emit_def)
qed

lemma broadcast_eq:
  "broadcast m w = w\<lparr>trace := trace w @ BroadcastCall m # deliveries m w\<rparr>"
  by (simp add: broadcast_def broadcast_loop_eq deliveries_def emit_def)

lemma deliveries_emit [simp]: "deliveries m (emit e w) = deliveries m w"
  by (simp add: deliveries_def)

lemma gate_eq:
  "blockConcurrencyWhile f w =
     (fst (f (emit GateEnter w)), emit GateExit (snd (f (emit GateEnter w))))"
  by (simp add: blockConcurrencyWhile_def split: prod.split)

lemma storage_storage_put [simp]: "storage (storage_put r w) = Some r"
  by (simp add: storage_put_def)

lemma sessions_storage_put [simp]: "sessions (storage_put r w) = sessions w"
  by (simp add: storage_put_def)

lemma sendThrows_storage_put [simp]: "sendThrows (storage_put r w) = sendThrows w"
  by (simp add: storage_put_def)

lemma trace_storage_put [simp]: "trace (storage_put r w) = trace w @ [StoragePut r]"
  by (simp add: storage_put_def)

lemma deliveries_storage_put [simp]: "deliveries m (storage_put r w) = deliveries m w"
  by (simp add: deliveries_def)

lemma storage_broadcast [simp]: "storage (broadcast m w) = storage w"
  by (simp add: broadcast_eq)

lemma sessions_broadcast [simp]: "sessions (broadcast m w) = sessions w"
  by (simp add: broadcast_eq)

lemma sendThrows_broadcast [simp]: "sendThrows (broadcast m w) = sendThrows w"
  by (simp add: broadcast_eq)

lemma trace_broadcast [simp]:
  "trace (broadcast m w) = trace w @ BroadcastCall m # deliveries m w"
  by (simp add: broadcast_eq)

lemma deliveries_broadcast [simp]: "deliveries m (broadcast m' w) = deliveries m w"
  by (simp add: deliveries_def)

section \<open>Settings\<close>

text \<open>
  C3. When the moderator submits a partial update \<open>p\<close>, the stored settings become the
  shallow merge of the old settings and \<open>p\<close>: a key of \<open>p\<close> takes the value \<open>p\<close> gives
  it, every other key keeps its value. This holds for the request (PUT /settings, on an
  initialized room) and for the \<open>updateSettings\<close> message on a channel.
\<close>

theorem settings_merge:
  assumes "storage w = Some r" and "moderator r = name"
  shows "(key r \<noteq> [] \<longrightarrow>
            fst (fetch (PutSettings name p) w)
              = Inr (Response 200 (SettingsJson (settings r ++ p))) \<and>
            storage (run (Request (PutSettings name p)) w)
              = Some (r\<lparr>settings := settings r ++ p\<rparr>)) \<and>
         storage (run (ChannelMessage sock name (Envelope ''updateSettings'' p)) w)
           = Some (r\<lparr>settings := settings r ++ p\<rparr>) \<and>
         (\<forall>k. (settings r ++ p) k = (case p k of None \<Rightarrow> settings r k | Some v \<Rightarrow> Some v))"
proof (intro conjI allI impI)
  fix k
  show "(settings r ++ p) k = (case p k of None \<Rightarrow> settings r k | Some v \<Rightarrow> Some v)"
    by (simp add: map_add_def)
next
  assume "key r \<noteq> []"
  with assms show "fst (fetch (PutSettings name p) w)
      = Inr (Response 200 (SettingsJson (settings r ++ p)))"
    by (simp add: gate_eq put_settings_body_def Let_def split: prod.split)
next
  assume "key r \<noteq> []"
  with assms show "storage (run (Request (PutSettings name p)) w)
      = Some (r\<lparr>settings := settings r ++ p\<rparr>)"
    by (simp add: gate_eq put_settings_body_def Let_def split: prod.split)
next
  from assms show "storage (run (ChannelMessage sock name (Envelope ''updateSettings'' p)) w)
      = Some (r\<lparr>settings := settings r ++ p\<rparr>)"
    by (simp add: messageListener_def handleUpdateSettings_def gate_eq
        update_settings_body_def Let_def)
qed

text \<open>
  The specification's example: from \<open>{x: 1}\<close>, the update \<open>{y: 2}\<close> gives
  \<open>{x: 1, y: 2}\<close>, and then the update \<open>{x: 3}\<close> gives \<open>{x: 3, y: 2}\<close>.
\<close>

theorem settings_merge_witness:
  "stored_settings world_abc ''x'' = Some 1 \<and> stored_settings world_abc ''y'' = None \<and>
   stored_settings world_y ''x'' = Some 1 \<and> stored_settings world_y ''y'' = Some 2 \<and>
   stored_settings world_xy ''x'' = Some 3 \<and> stored_settings world_xy ''y'' = Some 2"
proof -
  have s0: "storage world_abc = Some room_abc" "moderator room_abc = ''A''"
    "key room_abc \<noteq> []"
    by (simp_all add: world_abc_def room_abc_def)
  have s1: "storage world_y = Some (room_abc\<lparr>settings := settings room_abc ++ [''y'' \<mapsto> 2]\<rparr>)"
    using settings_merge [OF s0(1) s0(2), of "[''y'' \<mapsto> 2]" 11] s0(3)
    by (simp add: world_y_def)
  have s2: "storage world_xy
      = Some (room_abc\<lparr>settings := settings room_abc ++ [''y'' \<mapsto> 2] ++ [''x'' \<mapsto> 3]\<rparr>)"
    using settings_merge [OF s1, of "''A''" "[''x'' \<mapsto> 3]" 11] s0(2)
    by (simp add: world_xy_def)
  show ?thesis
    by (simp add: stored_settings_def s0 s1 s2) (simp add: room_abc_def)
qed

text \<open>
  C6. A settings update from a user who is not the moderator changes nothing. On the
  channel path the message is dropped: the world is the same except for the two gate
  events, so the record is unchanged, nothing is broadcast and nothing is sent back to
  the sender. On the request path (initialized room) the answer is 403 with the error
  text, and again only the two gate events are added.
\<close>

theorem non_moderator_update:
  assumes "storage w = Some r" and "moderator r \<noteq> name"
  shows "run (ChannelMessage sock name (Envelope ''updateSettings'' p)) w
           = w\<lparr>trace := trace w @ [GateEnter, GateExit]\<rparr>
         \<and> (key r \<noteq> [] \<longrightarrow>
              fetch (PutSettings name p) w
                = (Inr (Response 403 (ErrorJson ''Only the moderator can update settings'')),
                   w\<lparr>trace := trace w @ [GateEnter, GateExit]\<rparr>))"
  using assms
  by (simp add: messageListener_def handleUpdateSettings_def gate_eq update_settings_body_def
      put_settings_body_def emit_def)

theorem non_moderator_update_witness:
  "run (ChannelMessage 12 ''B'' (Envelope ''updateSettings'' [''x'' \<mapsto> 9])) world_abc
     = world_abc\<lparr>trace := [GateEnter, GateExit]\<rparr>
   \<and> fetch (PutSettings ''B'' [''x'' \<mapsto> 9]) world_abc
     = (Inr (Response 403 (ErrorJson ''Only the moderator can update settings'')),
        world_abc\<lparr>trace := [GateEnter, GateExit]\<rparr>)"
proof -
  have h: "storage world_abc = Some room_abc" "moderator room_abc \<noteq> ''B''"
    "key room_abc \<noteq> []" "trace world_abc = []"
    by (simp_all add: world_abc_def room_abc_def)
  show ?thesis
    using non_moderator_update [OF h(1) h(2), of 12 "[''x'' \<mapsto> 9]"] h(3) h(4) by simp
qed

section \<open>Create\<close>

text \<open>
  C2. On a record whose \<open>key\<close> is not empty, POST /initialize answers 400
  \<open>Room already exists\<close> and leaves everything but the trace as it was; the trace gains
  the two gate events only, so nothing is written. Hence a second create after a create
  with a non-empty room key fails and leaves the stored record equal to what the first
  call left; and when the first call found no initialized room, that record is the one
  it built.
\<close>

theorem create_guard:
  "(storage w = Some r \<and> key r \<noteq> [] \<longrightarrow>
      fetch (PostInitialize rk m) w
        = (Inr (Response 400 (ErrorJson ''Room already exists'')),
           w\<lparr>trace := trace w @ [GateEnter, GateExit]\<rparr>))
   \<and> (rk \<noteq> [] \<longrightarrow>
        fst (fetch (PostInitialize rk' m') (run (Request (PostInitialize rk m)) w))
          = Inr (Response 400 (ErrorJson ''Room already exists'')) \<and>
        storage (run (Request (PostInitialize rk' m')) (run (Request (PostInitialize rk m)) w))
          = storage (run (Request (PostInitialize rk m)) w) \<and>
        new_events (run (Request (PostInitialize rk m)) w)
           (run (Request (PostInitialize rk' m')) (run (Request (PostInitialize rk m)) w))
          = [GateEnter, GateExit])
   \<and> (rk \<noteq> [] \<and> stored_key w = [] \<longrightarrow>
        storage (run (Request (PostInitialize rk m)) w)
          = Some \<lparr>key = rk, users = [m], moderator = m, connectedUsers = Some [m \<mapsto> True],
                  settings = Map.empty\<rparr>)"
  by (auto simp add: gate_eq initialize_body_def emit_def Let_def new_events_def stored_key_def
      split: option.splits)

theorem create_guard_witness:
  "fst (fetch (PostInitialize ''K2'' ''B'')
          (run (Request (PostInitialize ''K1'' ''A'')) world_fresh))
     = Inr (Response 400 (ErrorJson ''Room already exists'')) \<and>
   storage (run (Request (PostInitialize ''K2'' ''B''))
              (run (Request (PostInitialize ''K1'' ''A'')) world_fresh))
     = Some \<lparr>key = ''K1'', users = [''A''], moderator = ''A'',
             connectedUsers = Some [''A'' \<mapsto> True], settings = Map.empty\<rparr>"
proof -
  have h: "''K1'' \<noteq> []" "stored_key world_fresh = []"
    by (simp_all add: stored_key_def world_fresh_def constructor_def gate_eq
        constructor_body_def empty_room_def)
  show ?thesis
    using create_guard [of world_fresh room_abc "''K1''" "''A''" "''K2''" "''B''"] h by simp
qed

section \<open>Broadcast\<close>

text \<open>
  C8. \<open>broadcast\<close> attempts one delivery per registered session, in registry order,
  whatever the earlier attempts did: a socket that does not throw gets the message even
  when others throw. It returns normally (it has no error result, and changes neither
  the record nor the registry), and the answer of the two requests that broadcast
  (join, settings update) does not depend on which sockets throw: on an initialized room
  it is 200 whatever the sockets do.
\<close>

theorem broadcast_isolation:
  "new_events w (broadcast m w)
     = BroadcastCall m # map (delivery (sendThrows w) m) (map snd (sessions w))
   \<and> (\<forall>s \<in> set (map snd (sessions w)).
        \<not> sendThrows w (webSocket s) \<longrightarrow> Sent (webSocket s) m \<in> set (trace (broadcast m w)))
   \<and> storage (broadcast m w) = storage w
   \<and> sessions (broadcast m w) = sessions w
   \<and> fst (fetch (PostJoin name) (w\<lparr>sendThrows := thr\<rparr>)) = fst (fetch (PostJoin name) w)
   \<and> fst (fetch (PutSettings name p) (w\<lparr>sendThrows := thr\<rparr>))
       = fst (fetch (PutSettings name p) w)
   \<and> (storage w = Some r \<and> key r \<noteq> [] \<longrightarrow>
        status_of (fst (fetch (PostJoin name) (w\<lparr>sendThrows := thr\<rparr>))) = Some 200)
   \<and> (storage w = Some r \<and> key r \<noteq> [] \<and> moderator r = name \<longrightarrow>
        status_of (fst (fetch (PutSettings name p) (w\<lparr>sendThrows := thr\<rparr>))) = Some 200)"
proof (intro conjI ballI impI)
  show "new_events w (broadcast m w)
     = BroadcastCall m # map (delivery (sendThrows w) m) (map snd (sessions w))"
    by (simp add: new_events_def deliveries_def)
next
  fix s assume mem: "s \<in> set (map snd (sessions w))" and ok: "\<not> sendThrows w (webSocket s)"
  from ok have "delivery (sendThrows w) m s = Sent (webSocket s) m"
    by (simp add: delivery_def)
  moreover from mem have "delivery (sendThrows w) m s \<in> set (deliveries m w)"
    unfolding deliveries_def set_map by (rule imageI)
  ultimately have "Sent (webSocket s) m \<in> set (deliveries m w)"
    by simp
  then show "Sent (webSocket s) m \<in> set (trace (broadcast m w))"
    by simp
next
  show "fst (fetch (PostJoin name) (w\<lparr>sendThrows := thr\<rparr>)) = fst (fetch (PostJoin name) w)"
    by (simp add: gate_eq join_body_def Let_def emit_def split: option.splits)
next
  show "fst (fetch (PutSettings name p) (w\<lparr>sendThrows := thr\<rparr>))
      = fst (fetch (PutSettings name p) w)"
    by (simp add: gate_eq put_settings_body_def Let_def emit_def split: option.splits)
next
  assume "storage w = Some r \<and> key r \<noteq> []"
  then show "status_of (fst (fetch (PostJoin name) (w\<lparr>sendThrows := thr\<rparr>))) = Some 200"
    by (simp add: gate_eq join_body_def Let_def emit_def)
next
  assume "storage w = Some r \<and> key r \<noteq> [] \<and> moderator r = name"
  then show "status_of (fst (fetch (PutSettings name p) (w\<lparr>sendThrows := thr\<rparr>))) = Some 200"
    by (simp add: gate_eq put_settings_body_def Let_def emit_def)
qed simp_all

theorem broadcast_isolation_witness:
  "Sent 11 notice \<in> set (trace (broadcast notice world_broken)) \<and>
   Sent 13 notice \<in> set (trace (broadcast notice world_broken)) \<and>
   new_events world_broken (broadcast notice world_broken)
     = [BroadcastCall notice, Sent 11 notice, SendThrew 12 notice, Sent 13 notice] \<and>
   fst (fetch (PostJoin ''D'') world_broken) = fst (fetch (PostJoin ''D'') world_abc) \<and>
   status_of (fst (fetch (PostJoin ''D'') world_broken)) = Some 200"
proof -
  have ss: "map snd (sessions world_broken)
      = map snd [session 11 ''A'', session 12 ''B'', session 13 ''C'']"
    and thr: "\<not> sendThrows world_broken 11" "sendThrows world_broken 12"
      "\<not> sendThrows world_broken 13"
    and eq: "world_abc\<lparr>sendThrows := closed_12\<rparr> = world_broken"
    and st: "storage world_abc = Some room_abc" "key room_abc \<noteq> []"
    by (simp_all add: world_broken_def world_abc_def closed_12_def room_abc_def)
  note b = broadcast_isolation [of world_broken notice "''D''" closed_12 Map.empty room_abc]
  note a = broadcast_isolation [of world_abc notice "''D''" closed_12 Map.empty room_abc]
  from b have ev: "new_events world_broken (broadcast notice world_broken)
      = [BroadcastCall notice, Sent 11 notice, SendThrew 12 notice, Sent 13 notice]"
    by (simp add: ss thr session_def delivery_def)
  from b have s11: "Sent 11 notice \<in> set (trace (broadcast notice world_broken))"
    and s13: "Sent 13 notice \<in> set (trace (broadcast notice world_broken))"
    by (simp_all add: ss [simplified] thr session_def)
  from a have j: "fst (fetch (PostJoin ''D'') world_broken) = fst (fetch (PostJoin ''D'') world_abc)"
    unfolding eq by blast
  from a st have ok: "status_of (fst (fetch (PostJoin ''D'') world_broken)) = Some 200"
    unfolding eq by blast
  from s11 s13 ev j ok show ?thesis
    by blast
qed

section \<open>The stored record under each operation\<close>

lemma assign_ordinary: "k \<noteq> ''__proto__'' \<Longrightarrow> assign k v obj = obj(k \<mapsto> v)"
  by (simp add: assign_def)

lemma assign_other [simp]: "u \<noteq> k \<Longrightarrow> assign k v obj u = obj u"
  by (simp add: assign_def)

lemma assign_proto_absent:
  "obj ''__proto__'' = None \<Longrightarrow> assign ''__proto__'' v obj = obj"
  by (simp add: assign_def)

lemma assign_same:
  "assign k v obj k = (if k = ''__proto__'' \<and> obj k = None then None else Some v)"
  by (cases "k = ''__proto__''") (simp_all add: assign_def)

lemma foldl_backfill:
  "foldl (\<lambda>obj user. assign user False obj) m0 us u
     = (if u \<in> set us \<and> (u = ''__proto__'' \<longrightarrow> m0 u \<noteq> None) then Some False else m0 u)"
proof (induction us arbitrary: m0)
  case Nil
  show ?case by simp
next
  case (Cons a us)
  let ?f = "\<lambda>obj user. assign user False obj"
  have step: "foldl ?f m0 (a # us) u
      = (if u \<in> set us \<and> (u = ''__proto__'' \<longrightarrow> assign a False m0 u \<noteq> None)
         then Some False else assign a False m0 u)"
    using Cons.IH [of "assign a False m0"] by simp
  show ?case
  proof (cases "a = u")
    case False
    then have eq: "assign a False m0 u = m0 u"
      by (simp add: assign_def)
    from False show ?thesis
      unfolding step eq by auto
  next
    case True
    show ?thesis
    proof (cases "u = ''__proto__'' \<and> m0 u = None")
      case True
      then have none: "m0 u = None" and proto: "u = ''__proto__''"
        by blast+
      have eq: "assign a False m0 u = m0 u"
        unfolding \<open>a = u\<close> assign_def using none proto by simp
      from none proto show ?thesis
        unfolding step eq by simp
    next
      case False
      with \<open>a = u\<close> have eq: "assign a False m0 u = Some False"
        by (simp add: assign_same)
      from False \<open>a = u\<close> show ?thesis
        unfolding step eq by auto
    qed
  qed
qed

lemma backfill_apply:
  "backfill us u = (if u \<in> set us \<and> u \<noteq> ''__proto__'' then Some False else None)"
  by (simp add: backfill_def foldl_backfill)

lemma storage_handleSession:
  "storage w = Some r \<Longrightarrow>
   storage (snd (handleSession sock k n w))
     = Some (r\<lparr>users := push_absent n (users r),
               connectedUsers := Some (assign n True (reconciled r))\<rparr>)"
  by (simp add: handleSession_def Let_def gate_eq connect_body_def send_def)

lemma storage_close_body:
  "storage w = Some r \<Longrightarrow>
   storage (snd (close_body n w))
     = Some (r\<lparr>connectedUsers := Some (assign n False (reconciled r)),
               moderator := (if n = moderator r
                  then (case filter (truthy (assign n False (reconciled r))) (users r) of
                          [] \<Rightarrow> moderator r | c # cs \<Rightarrow> c)
                  else moderator r)\<rparr>)"
  by (simp add: close_body_def Let_def split: list.split)

lemma still_connected_iff:
  "list_ex (\<lambda>s. userName s = n) (map snd (AList.delete sock (sessions w)))
     \<longleftrightarrow> \<not> set (sessions_of n w) \<subseteq> {sock}"
  by (fastforce simp add: list_ex_iff AList.delete_eq sessions_of_def)

lemma storage_closeListener:
  "storage w = Some r \<Longrightarrow>
   storage (closeListener sock n w)
     = (if set (sessions_of n w) \<subseteq> {sock}
        then Some (r\<lparr>connectedUsers := Some (assign n False (reconciled r)),
               moderator := (if n = moderator r
                  then (case filter (truthy (assign n False (reconciled r))) (users r) of
                          [] \<Rightarrow> moderator r | c # cs \<Rightarrow> c)
                  else moderator r)\<rparr>)
        else Some r)"
  by (simp add: closeListener_def Let_def still_connected_iff gate_eq storage_close_body)

lemma upgrade_world:
  "snd (fetch (WebSocketUpgrade a b c s) w)
     = (case a of None \<Rightarrow> w
        | Some k \<Rightarrow> (case b of None \<Rightarrow> w
            | Some n \<Rightarrow> if k = [] \<or> n = [] then w else snd (handleSession s k n w)))"
  by (simp split: option.split prod.split sum.split)

lemma storage_join:
  "storage w = Some r \<Longrightarrow> key r \<noteq> [] \<Longrightarrow>
   storage (run (Request (PostJoin n)) w)
     = Some (r\<lparr>users := push_absent n (users r),
               connectedUsers := Some (assign n True (reconciled r))\<rparr>)"
  by (simp add: gate_eq join_body_def Let_def)

lemma storage_created:
  "storage world_created
     = Some \<lparr>key = ''K1'', users = [''A''], moderator = ''A'',
             connectedUsers = Some [''A'' \<mapsto> True], settings = Map.empty\<rparr>"
  by (simp add: world_created_def world_fresh_def constructor_def constructor_body_def
      gate_eq initialize_body_def empty_room_def Let_def)

lemma sessions_created: "sessions world_created = []"
  by (simp add: world_created_def world_fresh_def constructor_def constructor_body_def
      gate_eq initialize_body_def empty_room_def Let_def)

lemma run_keeps_users:
  assumes "storage w = Some r" and "key r \<noteq> []"
  shows "\<exists>r' ext. storage (run op w) = Some r' \<and> key r' = key r \<and> users r' = users r @ ext"
proof (cases op)
  case (Request rq)
  show ?thesis
  proof (cases rq)
    case (WebSocketUpgrade a b c s)
    with Request assms show ?thesis
      by (simp add: upgrade_world storage_handleSession push_absent_def del: fetch.simps(1)
          split: option.split)
  next
    case (PostInitialize rk m)
    with Request assms show ?thesis
      by (simp add: gate_eq initialize_body_def)
  next
    case (PostJoin n)
    with Request assms show ?thesis
      by (simp add: gate_eq join_body_def Let_def push_absent_def)
  next
    case GetSettings
    with Request assms show ?thesis
      by (simp add: gate_eq get_settings_body_def)
  next
    case (PutSettings n p)
    with Request assms show ?thesis
      by (simp add: gate_eq put_settings_body_def Let_def)
  next
    case OtherRequest
    with Request assms show ?thesis by simp
  qed
next
  case (ChannelMessage sock n msg)
  with assms show ?thesis
    by (simp add: messageListener_def handleUpdateSettings_def gate_eq update_settings_body_def
        send_def Let_def split: incoming.split)
next
  case (ChannelClose sock n)
  with assms show ?thesis
    by (simp add: storage_closeListener)
qed

lemma fold_keeps_users:
  "storage w = Some r \<Longrightarrow> key r \<noteq> [] \<Longrightarrow>
   \<exists>r' ext. storage (fold run ops w) = Some r' \<and> key r' = key r \<and> users r' = users r @ ext"
proof (induction ops arbitrary: w r)
  case Nil
  then show ?case by simp
next
  case (Cons op ops)
  from run_keeps_users [OF Cons.prems, of op]
  obtain r1 ext1 where r1: "storage (run op w) = Some r1" "key r1 = key r"
    "users r1 = users r @ ext1"
    by blast
  from Cons.IH [OF r1(1)] r1(2) Cons.prems(2)
  obtain r2 ext2 where r2: "storage (fold run ops (run op w)) = Some r2" "key r2 = key r1"
    "users r2 = users r1 @ ext2"
    by auto
  with r1 show ?case by simp
qed

text \<open>
  On an initialized room the list \<open>users\<close> only grows at its end: after any sequence
  of operations the old list is a prefix of the new one; Join and Connect add the name
  at the end when it is absent; the other operations leave the list as it is.
\<close>

lemma users_list_append_only:
  assumes "storage w = Some r" and "key r \<noteq> []"
  shows "(\<exists>ext. stored_users (fold run ops w) = users r @ ext)
       \<and> stored_users (run (Request (PostJoin n)) w)
           = (if n \<in> set (users r) then users r else users r @ [n])
       \<and> (k \<noteq> [] \<and> n \<noteq> [] \<longrightarrow>
            stored_users (run (Request (WebSocketUpgrade (Some k) (Some n) c s)) w)
              = (if n \<in> set (users r) then users r else users r @ [n]))
       \<and> stored_users (run (ChannelClose sock n) w) = users r
       \<and> stored_users (run (ChannelMessage sock n msg) w) = users r
       \<and> stored_users (run (Request (PutSettings n p)) w) = users r
       \<and> stored_users (run (Request GetSettings) w) = users r"
proof (intro conjI impI)
  from fold_keeps_users [OF assms, of ops]
  show "\<exists>ext. stored_users (fold run ops w) = users r @ ext"
    by (auto simp add: stored_users_def)
next
  from assms show "stored_users (run (Request (PostJoin n)) w)
           = (if n \<in> set (users r) then users r else users r @ [n])"
    by (simp add: stored_users_def gate_eq join_body_def Let_def push_absent_def)
next
  assume "k \<noteq> [] \<and> n \<noteq> []"
  with assms show "stored_users (run (Request (WebSocketUpgrade (Some k) (Some n) c s)) w)
              = (if n \<in> set (users r) then users r else users r @ [n])"
    by (simp add: stored_users_def upgrade_world storage_handleSession push_absent_def
        del: fetch.simps(1))
next
  from assms show "stored_users (run (ChannelClose sock n) w) = users r"
    by (simp add: stored_users_def storage_closeListener)
next
  from assms show "stored_users (run (ChannelMessage sock n msg) w) = users r"
    by (simp add: stored_users_def messageListener_def handleUpdateSettings_def gate_eq
        update_settings_body_def send_def Let_def split: incoming.split)
next
  from assms show "stored_users (run (Request (PutSettings n p)) w) = users r"
    by (simp add: stored_users_def gate_eq put_settings_body_def Let_def)
next
  from assms show "stored_users (run (Request GetSettings) w) = users r"
    by (simp add: stored_users_def gate_eq get_settings_body_def)
qed

text \<open>
  For every name but one, the Disconnect of a user's last session stores \<open>false\<close> for
  the user.
\<close>

lemma disconnect_marks_ordinary_name:
  assumes "storage w = Some r" and "set (sessions_of n w) \<subseteq> {sock}"
    and "n \<noteq> ''__proto__''"
  shows "connected_entry (run (ChannelClose sock n) w) n = Some False"
  using assms by (simp add: connected_entry_def storage_closeListener assign_ordinary)

lemma storage_proto_online:
  "storage world_proto_online
     = Some \<lparr>key = ''K1'', users = [''A'', ''__proto__''], moderator = ''A'',
             connectedUsers = Some [''A'' \<mapsto> True], settings = Map.empty\<rparr>"
  by (simp add: world_proto_online_def upgrade_world storage_handleSession storage_created
      push_absent_def reconciled_def assign_def del: fetch.simps(1))

lemma sessions_proto_online:
  "sessions world_proto_online
     = [(12, \<lparr>webSocket = 12, roomKey = ''K1'', userName = ''__proto__''\<rparr>)]"
  by (simp add: world_proto_online_def upgrade_world handleSession_def Let_def gate_eq
      connect_body_def send_def sessions_created storage_created del: fetch.simps(1))

text \<open>
  C9. The part of the claim about the list holds (\<open>users_list_append_only\<close>). The part
  about Disconnect fails for the user name \<open>__proto__\<close>. A creates the room and
  \<open>__proto__\<close> opens one channel, socket 12. When that channel closes, the name stays in
  \<open>users\<close>, but the record written has no \<open>connectedUsers\<close> entry for it, and
  \<open>connectedUsers['__proto__']\<close> still reads truthy.
\<close>

theorem disconnect_leaves_proto_unmarked:
  "sessions_of ''__proto__'' world_proto_online = [12]
   \<and> stored_key world_proto_online = ''K1''
   \<and> stored_users (run (ChannelClose 12 ''__proto__'') world_proto_online)
       = [''A'', ''__proto__'']
   \<and> connected_entry (run (ChannelClose 12 ''__proto__'') world_proto_online) ''__proto__''
       = None
   \<and> reads_connected (run (ChannelClose 12 ''__proto__'') world_proto_online) ''__proto__''"
proof -
  have s: "set (sessions_of ''__proto__'' world_proto_online) \<subseteq> {12}"
    and l: "sessions_of ''__proto__'' world_proto_online = [12]"
    by (simp_all add: sessions_of_def sessions_proto_online)
  show ?thesis
    by (simp add: l stored_key_def stored_users_def connected_entry_def reads_connected_def
        storage_closeListener [OF storage_proto_online] s storage_proto_online
        reconciled_def assign_def truthy_def inherited_names_def)
qed

lemma handleSession_world:
  "storage w = Some r \<Longrightarrow>
   snd (handleSession sock k n w) =
     w\<lparr>sessions := AList.update sock \<lparr>webSocket = sock, roomKey = k, userName = n\<rparr> (sessions w),
        storage := Some (r\<lparr>users := push_absent n (users r),
                           connectedUsers := Some (assign n True (reconciled r))\<rparr>),
        trace := trace w @ [Accept sock, GateEnter,
                   StoragePut (r\<lparr>users := push_absent n (users r),
                           connectedUsers := Some (assign n True (reconciled r))\<rparr>),
                   BroadcastCall (UserConnectionStatus n True (r\<lparr>users := push_absent n (users r),
                           connectedUsers := Some (assign n True (reconciled r))\<rparr>))]
                 @ map (delivery (sendThrows w) (UserConnectionStatus n True (r\<lparr>users := push_absent n (users r),
                           connectedUsers := Some (assign n True (reconciled r))\<rparr>)))
                     (map snd (AList.update sock \<lparr>webSocket = sock, roomKey = k, userName = n\<rparr> (sessions w)))
                 @ [GateExit, delivery (sendThrows w) (Initialize (Some (r\<lparr>users := push_absent n (users r),
                           connectedUsers := Some (assign n True (reconciled r))\<rparr>)))
                      \<lparr>webSocket = sock, roomKey = k, userName = n\<rparr>]\<rparr>"
  by (simp add: handleSession_def Let_def gate_eq connect_body_def send_def delivery_def
      broadcast_eq storage_put_def emit_def deliveries_def)

lemma handleSession_result:
  "fst (handleSession sock k n w) = (if sendThrows w sock then Inl SocketSendError else Inr ())"
  by (simp add: handleSession_def Let_def gate_eq connect_body_def send_def
      split: option.split)

lemma upgrade_result:
  "fst (fetch (WebSocketUpgrade a b c s) w)
     = (case a of None \<Rightarrow> Inr (Response 400 (Text ''Missing room key or user name''))
        | Some k \<Rightarrow> (case b of None \<Rightarrow> Inr (Response 400 (Text ''Missing room key or user name''))
            | Some n \<Rightarrow> if k = [] \<or> n = [] then Inr (Response 400 (Text ''Missing room key or user name''))
                       else if sendThrows w s then Inl SocketSendError
                       else Inr (Response 101 (Upgraded c))))"
proof -
  have h: "fst (case handleSession s k n w of
               (Inl err, w') \<Rightarrow> (Inl err, w')
             | (Inr u, w') \<Rightarrow> (Inr (Response 101 (Upgraded c)), w'))
          = (if sendThrows w s then Inl SocketSendError else Inr (Response 101 (Upgraded c)))"
    for k n
    using handleSession_result [of s k n w]
    by (cases "handleSession s k n w") (auto split: sum.split)
  show ?thesis
    by (simp add: h split: option.split)
qed

text \<open>
  What a connect with non-empty parameters does to any stored record, initialized or
  not. No upgrade request is answered 404, whereas a join on a record with an empty key
  is.
\<close>

lemma connect_effect:
  assumes "storage w = Some r" and "k \<noteq> []" and "n \<noteq> []"
    and "r' = r\<lparr>users := (if n \<in> set (users r) then users r else users r @ [n]),
                 connectedUsers := Some (assign n True (reconciled r))\<rparr>"
    and "s = \<lparr>webSocket = server, roomKey = k, userName = n\<rparr>"
    and "w' = run (Request (WebSocketUpgrade (Some k) (Some n) client server)) w"
  shows "storage w' = Some r'
       \<and> map_of (sessions w') server = Some s
       \<and> (n \<noteq> ''__proto__'' \<longrightarrow> connected_entry w' n = Some True)
       \<and> new_events w w'
           = [Accept server, GateEnter, StoragePut r',
              BroadcastCall (UserConnectionStatus n True r')]
             @ map (delivery (sendThrows w) (UserConnectionStatus n True r')) (map snd (sessions w'))
             @ [GateExit, delivery (sendThrows w) (Initialize (Some r')) s]
       \<and> (\<not> sendThrows w server \<longrightarrow>
            fst (fetch (WebSocketUpgrade (Some k) (Some n) client server) w)
              = Inr (Response 101 (Upgraded client)) \<and>
            last (trace w') = Sent server (Initialize (Some r')))
       \<and> fst (fetch (WebSocketUpgrade a b client server) w) \<noteq> Inr (Response 404 body)
       \<and> (key r = [] \<longrightarrow>
            fst (fetch (PostJoin n) w) = Inr (Response 404 (ErrorJson ''Room not found'')))"
proof -
  have w': "w' = snd (handleSession server k n w)"
    using assms(2,3,6) by (simp add: upgrade_world del: fetch.simps(1))
  note hw = handleSession_world [OF assms(1), of server k n]
  show ?thesis
  proof (intro conjI impI)
    show "storage w' = Some r'"
      by (simp add: w' hw assms(4) push_absent_def)
    show "map_of (sessions w') server = Some s"
      by (simp add: w' hw assms(5) update_conv')
    show "new_events w w'
           = [Accept server, GateEnter, StoragePut r',
              BroadcastCall (UserConnectionStatus n True r')]
             @ map (delivery (sendThrows w) (UserConnectionStatus n True r')) (map snd (sessions w'))
             @ [GateExit, delivery (sendThrows w) (Initialize (Some r')) s]"
      by (simp add: w' hw new_events_def assms(4,5) push_absent_def)
    show "fst (fetch (WebSocketUpgrade a b client server) w) \<noteq> Inr (Response 404 body)"
      by (simp add: upgrade_result del: fetch.simps(1) split: option.split)
  next
    assume "n \<noteq> ''__proto__''"
    then show "connected_entry w' n = Some True"
      by (simp add: w' hw connected_entry_def assign_ordinary)
  next
    assume "\<not> sendThrows w server"
    then show "fst (fetch (WebSocketUpgrade (Some k) (Some n) client server) w)
              = Inr (Response 101 (Upgraded client))"
      using assms(2,3) by (simp add: upgrade_result del: fetch.simps(1))
  next
    assume "\<not> sendThrows w server"
    then show "last (trace w') = Sent server (Initialize (Some r'))"
      by (simp add: w' hw delivery_def assms(4) push_absent_def)
  next
    assume "key r = []"
    with assms(1) show "fst (fetch (PostJoin n) w) = Inr (Response 404 (ErrorJson ''Room not found''))"
      by (simp add: gate_eq join_body_def)
  qed
qed

text \<open>
  C10. Connect does not look at \<open>key\<close> and never answers 404 (\<open>connect_effect\<close>), but
  the claim's \<open>connectedUsers[userName]\<close> set to true fails for the user name
  \<open>__proto__\<close>. On a fresh instance, whose record has an empty key, a connect of
  \<open>__proto__\<close> is answered 101 and appends the name to \<open>users\<close>, while the record written
  has no \<open>connectedUsers\<close> entry for it.
\<close>

theorem connect_stores_no_entry_for_proto:
  "stored_key world_fresh = []
   \<and> status_of (fst (fetch (WebSocketUpgrade (Some ''K1'') (Some ''__proto__'') 20 12) world_fresh))
       = Some 101
   \<and> stored_users (run (Request (WebSocketUpgrade (Some ''K1'') (Some ''__proto__'') 20 12))
         world_fresh) = [''__proto__'']
   \<and> connected_entry (run (Request (WebSocketUpgrade (Some ''K1'') (Some ''__proto__'') 20 12))
         world_fresh) ''__proto__'' = None"
proof -
  have st: "storage world_fresh = Some empty_room" and thr: "\<not> sendThrows world_fresh 12"
    by (simp_all add: world_fresh_def constructor_def gate_eq constructor_body_def never_def)
  show ?thesis
    by (simp add: stored_key_def stored_users_def connected_entry_def st thr upgrade_world
        upgrade_result storage_handleSession [OF st] push_absent_def reconciled_def
        empty_room_def assign_def del: fetch.simps(1))
qed

section \<open>Disconnect\<close>

lemma closeListener_still:
  "\<not> set (sessions_of n w) \<subseteq> {sock} \<Longrightarrow>
   closeListener sock n w = w\<lparr>sessions := AList.delete sock (sessions w)\<rparr>"
  by (simp add: closeListener_def Let_def still_connected_iff)

lemma closeListener_last:
  "set (sessions_of n w) \<subseteq> {sock} \<Longrightarrow>
   closeListener sock n w
     = emit GateExit (snd (close_body n (emit GateEnter
         (w\<lparr>sessions := AList.delete sock (sessions w)\<rparr>))))"
  by (simp add: closeListener_def Let_def still_connected_iff gate_eq)

lemma sessions_of_delete:
  "set (sessions_of n (w\<lparr>sessions := AList.delete sock (sessions w)\<rparr>))
     = set (sessions_of n w) - {sock}"
  by (auto simp add: sessions_of_def AList.delete_eq)

lemma trace_close_body:
  "storage w = Some r \<Longrightarrow>
   trace (snd (close_body n w))
     = trace w
       @ [StoragePut (r\<lparr>connectedUsers := Some (assign n False (reconciled r))\<rparr>),
          BroadcastCall (UserConnectionStatus n False
            (r\<lparr>connectedUsers := Some (assign n False (reconciled r))\<rparr>))]
       @ deliveries (UserConnectionStatus n False
            (r\<lparr>connectedUsers := Some (assign n False (reconciled r))\<rparr>)) w
       @ (if n = moderator r
          then (case filter (truthy (assign n False (reconciled r))) (users r) of
                  [] \<Rightarrow> []
                | c # cs \<Rightarrow>
                    [StoragePut (r\<lparr>connectedUsers := Some (assign n False (reconciled r)),
                                   moderator := c\<rparr>),
                     BroadcastCall (NewModerator c
                       (r\<lparr>connectedUsers := Some (assign n False (reconciled r)),
                          moderator := c\<rparr>))]
                    @ deliveries (NewModerator c
                       (r\<lparr>connectedUsers := Some (assign n False (reconciled r)),
                          moderator := c\<rparr>)) w)
          else [])"
  by (simp add: close_body_def Let_def split: list.split)

lemma filter_deliveries [simp]:
  "filter is_status_broadcast (deliveries m w) = []"
  "filter is_moderator_broadcast (deliveries m w) = []"
  "filter is_put (deliveries m w) = []"
  by (auto simp add: deliveries_def delivery_def filter_empty_conv)

lemma find_filter:
  "find P xs = (case filter P xs of [] \<Rightarrow> None | x # ys \<Rightarrow> Some x)"
  by (induction xs) simp_all

lemma find_split:
  "find P xs = Some c \<Longrightarrow> \<exists>pre post. xs = pre @ c # post \<and> P c \<and> (\<forall>x \<in> set pre. \<not> P x)"
proof (induction xs)
  case Nil
  then show ?case by simp
next
  case (Cons a xs)
  show ?case
  proof (cases "P a")
    case True
    with Cons.prems have "a = c" by simp
    with True have "a # xs = [] @ c # xs \<and> P c \<and> (\<forall>x \<in> set []. \<not> P x)" by simp
    then show ?thesis by blast
  next
    case False
    with Cons obtain pre post where "xs = pre @ c # post" "P c" "\<forall>x \<in> set pre. \<not> P x"
      by auto
    with False have "a # xs = (a # pre) @ c # post \<and> P c \<and> (\<forall>x \<in> set (a # pre). \<not> P x)"
      by simp
    then show ?thesis by blast
  qed
qed

lemma truthy_entry:
  "obj x \<noteq> None \<or> x \<notin> set inherited_names \<Longrightarrow> truthy obj x = (obj x = Some True)"
  by (auto simp add: truthy_def split: option.splits)

text \<open>
  What the two closes do when a user has exactly two registered sockets \<open>a\<close> and \<open>b\<close>.
  Closing \<open>a\<close> removes only that entry from the registry and leaves the stored record
  and the trace as they were. Closing \<open>b\<close> afterwards writes the record after the
  assignment of \<open>false\<close> and broadcasts \<open>userConnectionStatus\<close> once; for every name but
  \<open>__proto__\<close> the entry is then false.
\<close>

lemma multi_session_disconnect:
  assumes "storage w = Some r"
    and "sessions_of u w = [a, b] \<or> sessions_of u w = [b, a]" and "a \<noteq> b"
    and "w1 = run (ChannelClose a u) w" and "w2 = run (ChannelClose b u) w1"
    and "r' = r\<lparr>connectedUsers := Some (assign u False (reconciled r))\<rparr>"
  shows "map_of (sessions w1) a = None
       \<and> (\<forall>k. k \<noteq> a \<longrightarrow> map_of (sessions w1) k = map_of (sessions w) k)
       \<and> storage w1 = storage w
       \<and> trace w1 = trace w
       \<and> (u \<noteq> ''__proto__'' \<longrightarrow> connected_entry w2 u = Some False)
       \<and> StoragePut r' \<in> set (new_events w1 w2)
       \<and> filter is_status_broadcast (new_events w1 w2)
           = [BroadcastCall (UserConnectionStatus u False r')]"
proof -
  from assms(2) have set_u: "set (sessions_of u w) = {a, b}"
    by auto
  with assms(3) have "\<not> set (sessions_of u w) \<subseteq> {a}"
    by auto
  with assms(4) have w1: "w1 = w\<lparr>sessions := AList.delete a (sessions w)\<rparr>"
    by (simp add: closeListener_still)
  from set_u assms(3) have last: "set (sessions_of u w1) \<subseteq> {b}"
    unfolding w1 sessions_of_delete by auto
  have st1: "storage w1 = Some r"
    by (simp add: w1 assms(1))
  define v where "v = emit GateEnter (w1\<lparr>sessions := AList.delete b (sessions w1)\<rparr>)"
  have v: "storage v = Some r" "trace v = trace w1 @ [GateEnter]"
    by (simp_all add: v_def st1)
  have w2: "w2 = emit GateExit (snd (close_body u v))"
    using assms(5) last by (simp add: closeListener_last v_def)
  define cands where
    "cands = filter (truthy (assign u False (reconciled r))) (users r)"
  define tail where "tail =
      (if u = moderator r
       then (case cands of
               [] \<Rightarrow> []
             | c # cs \<Rightarrow>
                 [StoragePut (r\<lparr>connectedUsers := Some (assign u False (reconciled r)),
                                moderator := c\<rparr>),
                  BroadcastCall (NewModerator c
                    (r\<lparr>connectedUsers := Some (assign u False (reconciled r)),
                       moderator := c\<rparr>))]
                 @ deliveries (NewModerator c
                    (r\<lparr>connectedUsers := Some (assign u False (reconciled r)),
                       moderator := c\<rparr>)) v)
       else [])"
  have tl: "filter is_status_broadcast tail = []"
    by (cases "u = moderator r"; cases cands; simp add: tail_def)
  have ev: "new_events w1 w2
      = [GateEnter, StoragePut r', BroadcastCall (UserConnectionStatus u False r')]
        @ deliveries (UserConnectionStatus u False r') v @ tail @ [GateExit]"
    unfolding tail_def cands_def
    by (simp add: w2 new_events_def trace_close_body [OF v(1)] v(2) assms(6))
  have "map_of (sessions w1) a = None"
    by (simp add: w1 delete_conv')
  moreover have "\<forall>k. k \<noteq> a \<longrightarrow> map_of (sessions w1) k = map_of (sessions w) k"
    by (simp add: w1 delete_conv')
  moreover have "storage w1 = storage w" and "trace w1 = trace w"
    by (simp_all add: w1)
  moreover have "u \<noteq> ''__proto__'' \<longrightarrow> connected_entry w2 u = Some False"
    using last st1 assms(5)
    by (simp add: connected_entry_def storage_closeListener assign_ordinary)
  moreover have "StoragePut r' \<in> set (new_events w1 w2)"
    by (simp add: ev)
  moreover have "filter is_status_broadcast (new_events w1 w2)
           = [BroadcastCall (UserConnectionStatus u False r')]"
    by (simp add: ev tl)
  ultimately show ?thesis
    by blast
qed

lemma storage_proto_two_tabs:
  "storage world_proto_two_tabs
     = Some \<lparr>key = ''K1'', users = [''A'', ''__proto__''], moderator = ''A'',
             connectedUsers = Some [''A'' \<mapsto> True], settings = Map.empty\<rparr>"
  by (simp add: world_proto_two_tabs_def upgrade_world storage_handleSession
      storage_proto_online push_absent_def reconciled_def assign_def del: fetch.simps(1))

lemma sessions_proto_two_tabs:
  "sessions world_proto_two_tabs
     = [(12, \<lparr>webSocket = 12, roomKey = ''K1'', userName = ''__proto__''\<rparr>),
        (14, \<lparr>webSocket = 14, roomKey = ''K1'', userName = ''__proto__''\<rparr>)]"
  by (simp add: world_proto_two_tabs_def upgrade_world handleSession_def Let_def gate_eq
      connect_body_def send_def sessions_proto_online storage_proto_online
      del: fetch.simps(1))

text \<open>
  C5. The claim fails for the user name \<open>__proto__\<close>. A creates the room and
  \<open>__proto__\<close> opens two channels, sockets 12 and 14. After both have closed,
  \<open>userConnectionStatus\<close> has been broadcast once, but the record written has no
  \<open>connectedUsers\<close> entry for \<open>__proto__\<close>, and \<open>connectedUsers['__proto__']\<close> still
  reads truthy.
\<close>

theorem last_close_leaves_proto_unmarked:
  "sessions_of ''__proto__'' world_proto_two_tabs = [12, 14]
   \<and> connected_entry
        (run (ChannelClose 14 ''__proto__'') (run (ChannelClose 12 ''__proto__'') world_proto_two_tabs))
        ''__proto__'' = None
   \<and> reads_connected
        (run (ChannelClose 14 ''__proto__'') (run (ChannelClose 12 ''__proto__'') world_proto_two_tabs))
        ''__proto__''
   \<and> length (filter is_status_broadcast
        (new_events (run (ChannelClose 12 ''__proto__'') world_proto_two_tabs)
           (run (ChannelClose 14 ''__proto__'')
              (run (ChannelClose 12 ''__proto__'') world_proto_two_tabs)))) = 1"
proof -
  let ?w1 = "run (ChannelClose 12 ''__proto__'') world_proto_two_tabs"
  let ?w2 = "run (ChannelClose 14 ''__proto__'') ?w1"
  let ?r = "\<lparr>key = ''K1'', users = [''A'', ''__proto__''], moderator = ''A'',
             connectedUsers = Some [''A'' \<mapsto> True], settings = (Map.empty :: string \<rightharpoonup> nat)\<rparr>"
  have l: "sessions_of ''__proto__'' world_proto_two_tabs = [12, 14]"
    by (simp add: sessions_of_def sessions_proto_two_tabs)
  have ne: "(12::nat) \<noteq> 14"
    by simp
  note t = multi_session_disconnect [OF storage_proto_two_tabs disjI1 [OF l] ne refl refl refl]
  have s1: "set (sessions_of ''__proto__'' ?w1) \<subseteq> {14}"
    by (simp add: closeListener_def Let_def sessions_proto_two_tabs sessions_of_def
        AList.delete_eq)
  from t have st1: "storage ?w1 = Some ?r"
    by (simp add: storage_proto_two_tabs del: run.simps)
  have st2: "storage ?w2 = Some (?r\<lparr>connectedUsers := Some [''A'' \<mapsto> True]\<rparr>)"
    using storage_closeListener [OF st1 [simplified], of 14 "''__proto__''"] s1
    by (simp add: reconciled_def assign_def)
  have e: "connected_entry ?w2 ''__proto__'' = None"
    by (simp add: connected_entry_def st2 del: run.simps)
  have rc: "reads_connected ?w2 ''__proto__''"
    by (simp add: reads_connected_def st2 truthy_def inherited_names_def del: run.simps)
  from t have "length (filter is_status_broadcast (new_events ?w1 ?w2)) = 1"
    by (simp del: run.simps)
  with l e rc show ?thesis
    by blast
qed

text \<open>
  What the close of the moderator's last session does; \<open>cu\<close> is the connection object
  after the assignment of \<open>false\<close>. The first member of \<open>users\<close> for which \<open>cu\<close> reads
  truthy becomes the moderator, the record is written a second time and \<open>newModerator\<close> is
  broadcast once; when no member reads truthy the moderator stays, the record is written
  once and no \<open>newModerator\<close> is broadcast.
\<close>

lemma failover_elects_first_truthy:
  assumes "storage w = Some r" and "moderator r = u" and "set (sessions_of u w) \<subseteq> {sock}"
    and "cu = assign u False (reconciled r)"
    and "w' = run (ChannelClose sock u) w"
  shows "(\<forall>c. find (truthy cu) (users r) = Some c \<longrightarrow>
            storage w' = Some (r\<lparr>connectedUsers := Some cu, moderator := c\<rparr>)
          \<and> (\<exists>pre post. users r = pre @ c # post \<and> truthy cu c
                \<and> (\<forall>x \<in> set pre. \<not> truthy cu x))
          \<and> filter is_put (new_events w w')
              = [StoragePut (r\<lparr>connectedUsers := Some cu\<rparr>),
                 StoragePut (r\<lparr>connectedUsers := Some cu, moderator := c\<rparr>)]
          \<and> filter is_moderator_broadcast (new_events w w')
              = [BroadcastCall (NewModerator c (r\<lparr>connectedUsers := Some cu, moderator := c\<rparr>))])
       \<and> (find (truthy cu) (users r) = None \<longrightarrow>
            storage w' = Some (r\<lparr>connectedUsers := Some cu\<rparr>)
          \<and> filter is_put (new_events w w') = [StoragePut (r\<lparr>connectedUsers := Some cu\<rparr>)]
          \<and> filter is_moderator_broadcast (new_events w w') = [])
       \<and> (find (truthy cu) (users r) = None
            \<longleftrightarrow> (\<forall>x \<in> set (users r). \<not> truthy cu x))"
proof -
  define cands where "cands = filter (truthy cu) (users r)"
  define v where "v = emit GateEnter (w\<lparr>sessions := AList.delete sock (sessions w)\<rparr>)"
  have v: "storage v = Some r" "trace v = trace w @ [GateEnter]"
    by (simp_all add: v_def assms(1))
  have w': "w' = emit GateExit (snd (close_body u v))"
    using assms(3,5) by (simp add: closeListener_last v_def)
  define r1 where "r1 = r\<lparr>connectedUsers := Some cu\<rparr>"
  define tail where "tail =
      (case cands of
         [] \<Rightarrow> []
       | c # cs \<Rightarrow>
           [StoragePut (r1\<lparr>moderator := c\<rparr>), BroadcastCall (NewModerator c (r1\<lparr>moderator := c\<rparr>))]
           @ deliveries (NewModerator c (r1\<lparr>moderator := c\<rparr>)) v)"
  have ev: "new_events w w'
      = [GateEnter, StoragePut r1, BroadcastCall (UserConnectionStatus u False r1)]
        @ deliveries (UserConnectionStatus u False r1) v @ tail @ [GateExit]"
    unfolding tail_def cands_def r1_def assms(4)
    using assms(2)
    by (simp add: w' new_events_def trace_close_body [OF v(1)] v(2))
  have st: "storage w' = Some (case cands of [] \<Rightarrow> r1 | c # cs \<Rightarrow> r1\<lparr>moderator := c\<rparr>)"
    unfolding cands_def r1_def assms(4)
    using assms(2)
    by (simp add: w' storage_close_body [OF v(1)] split: list.split)
  have fc: "find (truthy cu) (users r) = (case cands of [] \<Rightarrow> None | c # cs \<Rightarrow> Some c)"
    by (simp add: find_filter cands_def)
  show ?thesis
  proof (intro conjI allI impI)
    fix c assume c: "find (truthy cu) (users r) = Some c"
    then obtain cs where cs: "cands = c # cs"
      by (auto simp add: fc split: list.splits)
    show "storage w' = Some (r\<lparr>connectedUsers := Some cu, moderator := c\<rparr>)"
      by (simp add: st cs r1_def)
    from find_split [OF c]
    show "\<exists>pre post. users r = pre @ c # post \<and> truthy cu c
                \<and> (\<forall>x \<in> set pre. \<not> truthy cu x)"
      by simp
    show "filter is_put (new_events w w')
              = [StoragePut (r\<lparr>connectedUsers := Some cu\<rparr>),
                 StoragePut (r\<lparr>connectedUsers := Some cu, moderator := c\<rparr>)]"
      by (simp add: ev tail_def cs r1_def)
    show "filter is_moderator_broadcast (new_events w w')
              = [BroadcastCall (NewModerator c (r\<lparr>connectedUsers := Some cu, moderator := c\<rparr>))]"
      by (simp add: ev tail_def cs r1_def)
  next
    assume "find (truthy cu) (users r) = None"
    then have cs: "cands = []"
      by (simp add: fc split: list.splits)
    show "storage w' = Some (r\<lparr>connectedUsers := Some cu\<rparr>)"
      by (simp add: st cs r1_def)
    show "filter is_put (new_events w w') = [StoragePut (r\<lparr>connectedUsers := Some cu\<rparr>)]"
      by (simp add: ev tail_def cs r1_def)
    show "filter is_moderator_broadcast (new_events w w') = []"
      by (simp add: ev tail_def cs r1_def)
  next
    show "find (truthy cu) (users r) = None
            \<longleftrightarrow> (\<forall>x \<in> set (users r). \<not> truthy cu x)"
      by (auto simp add: find_None_iff)
  qed
qed

text \<open>
  When every member of \<open>users\<close> that bears an inherited name has an own entry, reading
  truthy is having a true entry, and the member elected is the first connected one of
  the specification.
\<close>

lemma first_truthy_is_first_connected:
  assumes "\<forall>x \<in> set us. cu x \<noteq> None \<or> x \<notin> set inherited_names"
  shows "find (truthy cu) us = first_connected cu us"
  using assms
proof (induction us)
  case Nil
  show ?case by (simp add: first_connected_def)
next
  case (Cons a us)
  then have "truthy cu a = (cu a = Some True)"
    by (simp add: truthy_entry)
  with Cons show ?case
    by (simp add: first_connected_def)
qed

lemma storage_moderator_online:
  "storage world_moderator_online
     = Some \<lparr>key = ''K1'', users = [''A''], moderator = ''A'',
             connectedUsers = Some [''A'' \<mapsto> True], settings = Map.empty\<rparr>"
  by (simp add: world_moderator_online_def upgrade_world storage_handleSession storage_created
      push_absent_def reconciled_def assign_def del: fetch.simps(1))

lemma sessions_moderator_online:
  "sessions world_moderator_online
     = [(11, \<lparr>webSocket = 11, roomKey = ''K1'', userName = ''A''\<rparr>)]"
  by (simp add: world_moderator_online_def upgrade_world handleSession_def Let_def gate_eq
      connect_body_def send_def sessions_created storage_created del: fetch.simps(1))

lemma storage_proto_joined:
  "storage world_proto_joined
     = Some \<lparr>key = ''K1'', users = [''A'', ''__proto__''], moderator = ''A'',
             connectedUsers = Some [''A'' \<mapsto> True], settings = Map.empty\<rparr>"
  unfolding world_proto_joined_def
  by (simp add: storage_join [OF storage_moderator_online] push_absent_def reconciled_def
      assign_def del: run.simps)

lemma sessions_proto_joined:
  "sessions world_proto_joined
     = [(11, \<lparr>webSocket = 11, roomKey = ''K1'', userName = ''A''\<rparr>)]"
  by (simp add: world_proto_joined_def gate_eq join_body_def Let_def
      storage_moderator_online sessions_moderator_online)

text \<open>
  C1. The claim fails when a user is named \<open>__proto__\<close>. A creates the room and
  opens a channel, socket 11; \<open>__proto__\<close> joins and never opens a channel. The stored
  record has no \<open>connectedUsers\<close> entry for \<open>__proto__\<close>. When the channel of A closes,
  no member of \<open>users\<close> has a true entry, yet \<open>__proto__\<close> becomes the moderator, the
  record is written again and \<open>newModerator\<close> is broadcast.
\<close>

theorem failover_elects_proto:
  "stored_users world_proto_joined = [''A'', ''__proto__'']
   \<and> stored_moderator world_proto_joined = ''A''
   \<and> sessions_of ''A'' world_proto_joined = [11]
   \<and> connected_entry world_proto_joined ''__proto__'' = None
   \<and> connected_entry (run (ChannelClose 11 ''A'') world_proto_joined) ''A'' = Some False
   \<and> connected_entry (run (ChannelClose 11 ''A'') world_proto_joined) ''__proto__'' = None
   \<and> stored_moderator (run (ChannelClose 11 ''A'') world_proto_joined) = ''__proto__''
   \<and> length (filter is_put
        (new_events world_proto_joined (run (ChannelClose 11 ''A'') world_proto_joined))) = 2
   \<and> length (filter is_moderator_broadcast
        (new_events world_proto_joined (run (ChannelClose 11 ''A'') world_proto_joined))) = 1"
proof -
  let ?w' = "run (ChannelClose 11 ''A'') world_proto_joined"
  let ?r = "\<lparr>key = ''K1'', users = [''A'', ''__proto__''], moderator = ''A'',
             connectedUsers = Some [''A'' \<mapsto> True], settings = (Map.empty :: string \<rightharpoonup> nat)\<rparr>"
  let ?cu = "assign ''A'' False (reconciled ?r)"
  have l: "sessions_of ''A'' world_proto_joined = [11]"
    and s: "set (sessions_of ''A'' world_proto_joined) \<subseteq> {11}"
    by (simp_all add: sessions_of_def sessions_proto_joined)
  have m: "moderator ?r = ''A''"
    by simp
  have cu: "?cu = [''A'' \<mapsto> False]"
    by (simp add: reconciled_def assign_def)
  have f: "find (truthy ?cu) (users ?r) = Some ''__proto__''"
    by (simp add: cu truthy_def inherited_names_def)
  note t = failover_elects_first_truthy [OF storage_proto_joined m s refl refl,
      THEN conjunct1, rule_format, OF f]
  from t have st: "storage ?w' = Some (?r\<lparr>connectedUsers := Some ?cu, moderator := ''__proto__''\<rparr>)"
    by (simp del: run.simps)
  have a: "stored_users world_proto_joined = [''A'', ''__proto__'']"
    "stored_moderator world_proto_joined = ''A''"
    "connected_entry world_proto_joined ''__proto__'' = None"
    by (simp_all add: stored_users_def stored_moderator_def connected_entry_def
        storage_proto_joined)
  have b: "connected_entry ?w' ''A'' = Some False"
    "connected_entry ?w' ''__proto__'' = None"
    "stored_moderator ?w' = ''__proto__''"
    by (simp_all add: connected_entry_def stored_moderator_def st cu del: run.simps)
  from t have c: "length (filter is_put (new_events world_proto_joined ?w')) = 2"
    "length (filter is_moderator_broadcast (new_events world_proto_joined ?w')) = 1"
    by (simp_all del: run.simps)
  from a l b c show ?thesis
    by blast
qed

section \<open>Reconciliation of \<open>connectedUsers\<close>\<close>

lemma reconciled_apply:
  "reconciled r u = (case connectedUsers r of
                       None \<Rightarrow> if u \<in> set (users r) \<and> u \<noteq> ''__proto__'' then Some False else None
                     | Some m \<Rightarrow> m u)"
  by (simp add: reconciled_def backfill_apply split: option.split)

lemma constructor_map_absent:
  "connectedUsers r = None \<Longrightarrow>
   constructor (Some r) thr
     = \<lparr>storage = Some (r\<lparr>connectedUsers := Some (backfill (users r))\<rparr>), sessions = [],
        sendThrows = thr,
        trace = [GateEnter, StoragePut (r\<lparr>connectedUsers := Some (backfill (users r))\<rparr>),
                 GateExit]\<rparr>"
  by (simp add: constructor_def gate_eq constructor_body_def storage_put_def emit_def)

lemma constructor_map_present:
  "connectedUsers r = Some m \<Longrightarrow>
   constructor (Some r) thr
     = \<lparr>storage = Some r, sessions = [], sendThrows = thr, trace = [GateEnter, GateExit]\<rparr>"
  by (simp add: constructor_def gate_eq constructor_body_def emit_def)

text \<open>
  C7 (as amended). The backfill happens only when the stored record has no
  \<open>connectedUsers\<close> map at all: then the map is built with the names of \<open>users\<close> set to
  false (nothing is said here about the name \<open>__proto__\<close> in that case), and the
  constructor writes the record with that map. A map that is present is used as it is,
  so an entry missing from it stays missing in the record that join, connect and the
  last-session disconnect write (for every user other than the acting one), and the
  constructor does not write such a record: it adds the two gate events and nothing else.
\<close>

theorem backfill_when_map_absent:
  "(storage w = Some r \<and> u \<noteq> n \<and> (connectedUsers r = None \<longrightarrow> u \<noteq> ''__proto__'') \<and>
      (W = run (Request (PostJoin n)) w \<and> key r \<noteq> [] \<or>
       W = run (Request (WebSocketUpgrade (Some k) (Some n) c s)) w \<and> k \<noteq> [] \<and> n \<noteq> [] \<or>
       W = run (ChannelClose sock n) w \<and> set (sessions_of n w) \<subseteq> {sock})
      \<longrightarrow> connected_entry W u
            = (case connectedUsers r of
                 None \<Rightarrow> if u \<in> set (users r) then Some False else None
               | Some m \<Rightarrow> m u))
   \<and> (connectedUsers r = None \<longrightarrow>
        (\<exists>cu. constructor (Some r) thr
                = \<lparr>storage = Some (r\<lparr>connectedUsers := Some cu\<rparr>), sessions = [],
                   sendThrows = thr,
                   trace = [GateEnter, StoragePut (r\<lparr>connectedUsers := Some cu\<rparr>), GateExit]\<rparr>
              \<and> (\<forall>x. x \<noteq> ''__proto__'' \<longrightarrow>
                     cu x = (if x \<in> set (users r) then Some False else None))))
   \<and> (connectedUsers r \<noteq> None \<longrightarrow>
        constructor (Some r) thr
          = \<lparr>storage = Some r, sessions = [], sendThrows = thr, trace = [GateEnter, GateExit]\<rparr>)"
proof (intro conjI impI)
  assume a: "storage w = Some r \<and> u \<noteq> n \<and> (connectedUsers r = None \<longrightarrow> u \<noteq> ''__proto__'') \<and>
      (W = run (Request (PostJoin n)) w \<and> key r \<noteq> [] \<or>
       W = run (Request (WebSocketUpgrade (Some k) (Some n) c s)) w \<and> k \<noteq> [] \<and> n \<noteq> [] \<or>
       W = run (ChannelClose sock n) w \<and> set (sessions_of n w) \<subseteq> {sock})"
  then have st: "storage w = Some r" and ne: "u \<noteq> n"
    and pr: "connectedUsers r = None \<longrightarrow> u \<noteq> ''__proto__''"
    by blast+
  from a consider
      (join) "W = run (Request (PostJoin n)) w" "key r \<noteq> []"
    | (connect) "W = run (Request (WebSocketUpgrade (Some k) (Some n) c s)) w" "k \<noteq> []" "n \<noteq> []"
    | (close) "W = run (ChannelClose sock n) w" "set (sessions_of n w) \<subseteq> {sock}"
    by blast
  then have "connected_entry W u = reconciled r u"
  proof cases
    case join
    with st ne show ?thesis
      by (simp add: connected_entry_def storage_join del: run.simps)
  next
    case connect
    with st ne show ?thesis
      by (simp add: connected_entry_def upgrade_world storage_handleSession del: fetch.simps(1))
  next
    case close
    with st ne show ?thesis
      by (simp add: connected_entry_def storage_closeListener)
  qed
  with pr show "connected_entry W u
            = (case connectedUsers r of
                 None \<Rightarrow> if u \<in> set (users r) then Some False else None
               | Some m \<Rightarrow> m u)"
    by (cases "connectedUsers r") (simp_all add: reconciled_apply)
next
  assume none: "connectedUsers r = None"
  have "\<forall>x. x \<noteq> ''__proto__'' \<longrightarrow>
          backfill (users r) x = (if x \<in> set (users r) then Some False else None)"
    by (simp add: backfill_apply)
  with constructor_map_absent [OF none, of thr]
  show "\<exists>cu. constructor (Some r) thr
                = \<lparr>storage = Some (r\<lparr>connectedUsers := Some cu\<rparr>), sessions = [],
                   sendThrows = thr,
                   trace = [GateEnter, StoragePut (r\<lparr>connectedUsers := Some cu\<rparr>), GateExit]\<rparr>
              \<and> (\<forall>x. x \<noteq> ''__proto__'' \<longrightarrow>
                     cu x = (if x \<in> set (users r) then Some False else None))"
    by blast
next
  assume "connectedUsers r \<noteq> None"
  then obtain m where "connectedUsers r = Some m"
    by blast
  then show "constructor (Some r) thr
          = \<lparr>storage = Some r, sessions = [], sendThrows = thr, trace = [GateEnter, GateExit]\<rparr>"
    by (rule constructor_map_present)
qed

text \<open>
  C7 as stated fails: B is in \<open>users\<close> and has no entry in a map that is present; after
  a join of C the written record still has no entry for B.
\<close>

theorem partial_map_counterexample:
  "''B'' \<in> set (stored_users (run (Request (PostJoin ''C'')) world_partial))
   \<and> connected_entry (run (Request (PostJoin ''C'')) world_partial) ''B'' = None"
  by (simp add: world_partial_def room_partial_def stored_users_def connected_entry_def
      gate_eq join_body_def Let_def push_absent_def reconciled_def assign_def)

theorem backfill_when_map_absent_witness:
  "connected_entry (run (Request (PostJoin ''C'')) world_legacy) ''B'' = Some False
   \<and> connected_entry (run (Request (PostJoin ''C'')) world_partial) ''B'' = None
   \<and> connected_entry (constructor (Some room_legacy) never) ''B'' = Some False
   \<and> trace (constructor (Some room_legacy) never) \<noteq> [GateEnter, GateExit]
   \<and> constructor (Some room_partial) never
       = \<lparr>storage = Some room_partial, sessions = [], sendThrows = never,
          trace = [GateEnter, GateExit]\<rparr>"
proof -
  let ?wl = "run (Request (PostJoin ''C'')) world_legacy"
  let ?wp = "run (Request (PostJoin ''C'')) world_partial"
  have h: "storage world_legacy = Some room_legacy" "storage world_partial = Some room_partial"
    "key room_legacy \<noteq> []" "key room_partial \<noteq> []"
    "connectedUsers room_legacy = None" "connectedUsers room_partial = Some [''A'' \<mapsto> True]"
    "users room_legacy = [''A'', ''B'']"
    by (simp_all add: world_legacy_def world_partial_def room_legacy_def room_partial_def)
  note l = backfill_when_map_absent [of world_legacy room_legacy "''B''" "''C''" ?wl
      "[]" 0 0 0 never]
  note p = backfill_when_map_absent [of world_partial room_partial "''B''" "''C''" ?wp
      "[]" 0 0 0 never]
  from l h have a: "connected_entry ?wl ''B'' = Some False"
    by (simp del: run.simps)
  from p h have b: "connected_entry ?wp ''B'' = None"
    by (simp del: run.simps)
  from l h obtain cu where cu: "constructor (Some room_legacy) never
      = \<lparr>storage = Some (room_legacy\<lparr>connectedUsers := Some cu\<rparr>), sessions = [],
         sendThrows = never,
         trace = [GateEnter, StoragePut (room_legacy\<lparr>connectedUsers := Some cu\<rparr>), GateExit]\<rparr>"
    and cux: "\<forall>x. x \<noteq> ''__proto__'' \<longrightarrow>
               cu x = (if x \<in> set (users room_legacy) then Some False else None)"
    by blast
  from cux h have "cu ''B'' = Some False"
    by simp
  then have c: "connected_entry (constructor (Some room_legacy) never) ''B'' = Some False"
    by (simp add: cu connected_entry_def)
  have d: "trace (constructor (Some room_legacy) never) \<noteq> [GateEnter, GateExit]"
    by (simp add: cu)
  from p h have e: "constructor (Some room_partial) never
       = \<lparr>storage = Some room_partial, sessions = [], sendThrows = never,
          trace = [GateEnter, GateExit]\<rparr>"
    by simp
  from a b c d e show ?thesis
    by blast
qed

section \<open>Broadcasts and the gate\<close>

lemma broadcasts_inside_append:
  "broadcasts_inside g (xs @ ys)
     = (broadcasts_inside g xs \<and> broadcasts_inside (foldl gate_after g xs) ys)"
  by (induction xs arbitrary: g) auto

lemma gate_after_delivery [simp]: "gate_after g (delivery thr m s) = g"
  by (cases g) (simp_all add: delivery_def)

lemma broadcast_part_delivery [simp]:
  "broadcast_part (delivery thr m s) = (carried m \<noteq> None)"
  by (simp add: delivery_def)

lemma event_record_delivery [simp]: "event_record (delivery thr m s) = carried m"
  by (simp add: delivery_def)

lemma gate_after_broadcast_call [simp]: "gate_after g (BroadcastCall m) = g"
  by (cases g) simp_all

lemma gate_after_accept [simp]: "gate_after g (Accept k) = g"
  by (cases g) simp_all

lemma foldl_gate_deliveries [simp]: "foldl gate_after g (deliveries m w) = g"
proof -
  have "foldl gate_after g (map (delivery thr m) ss) = g" for thr ss
    by (induction ss) simp_all
  then show ?thesis
    unfolding deliveries_def .
qed

lemma broadcasts_inside_deliveries [simp]:
  "carried m = Some r \<Longrightarrow> broadcasts_inside (Held (Some r)) (deliveries m w)"
proof -
  assume c: "carried m = Some r"
  have "broadcasts_inside (Held (Some r)) (map (delivery thr m) ss)" for thr ss
    by (induction ss) (simp_all add: c)
  then show ?thesis
    unfolding deliveries_def .
qed

lemma gate_ok:
  assumes "\<And>v. \<exists>evs. trace (snd (f v)) = trace v @ evs \<and> broadcasts_inside (Held None) evs"
  shows "\<exists>evs. trace (snd (blockConcurrencyWhile f w)) = trace w @ evs
               \<and> broadcasts_inside Released evs"
proof -
  from assms [of "emit GateEnter w"]
  obtain evs where evs: "trace (snd (f (emit GateEnter w))) = trace (emit GateEnter w) @ evs"
    "broadcasts_inside (Held None) evs"
    by blast
  have "trace (snd (blockConcurrencyWhile f w)) = trace w @ (GateEnter # evs @ [GateExit])"
    by (simp add: gate_eq evs(1))
  moreover have "broadcasts_inside Released (GateEnter # evs @ [GateExit])"
    by (simp add: broadcasts_inside_append evs(2))
  ultimately show ?thesis
    by blast
qed

lemma constructor_body_ok:
  "\<exists>evs. trace (snd (constructor_body v)) = trace v @ evs \<and> broadcasts_inside (Held None) evs"
  by (simp add: constructor_body_def split: option.split)

lemma initialize_body_ok:
  "\<exists>evs. trace (snd (initialize_body rk m v)) = trace v @ evs
         \<and> broadcasts_inside (Held None) evs"
  by (simp add: initialize_body_def Let_def)

lemma join_body_ok:
  "\<exists>evs. trace (snd (join_body n v)) = trace v @ evs \<and> broadcasts_inside (Held None) evs"
  by (simp add: join_body_def Let_def split: option.split)

lemma get_settings_body_ok:
  "\<exists>evs. trace (snd (get_settings_body v)) = trace v @ evs
         \<and> broadcasts_inside (Held None) evs"
  by (simp add: get_settings_body_def split: option.split)

lemma put_settings_body_ok:
  "\<exists>evs. trace (snd (put_settings_body n p v)) = trace v @ evs
         \<and> broadcasts_inside (Held None) evs"
  by (simp add: put_settings_body_def Let_def split: option.split)

lemma connect_body_ok:
  "\<exists>evs. trace (snd (connect_body n v)) = trace v @ evs \<and> broadcasts_inside (Held None) evs"
  by (simp add: connect_body_def Let_def split: option.split)

lemma update_settings_body_ok:
  "\<exists>evs. trace (snd (update_settings_body n p v)) = trace v @ evs
         \<and> broadcasts_inside (Held None) evs"
  by (simp add: update_settings_body_def Let_def split: option.split)

lemma close_body_ok:
  "\<exists>evs. trace (snd (close_body n v)) = trace v @ evs \<and> broadcasts_inside (Held None) evs"
proof (cases "storage v")
  case None
  then show ?thesis by (simp add: close_body_def)
next
  case (Some r)
  show ?thesis
  proof (cases "n = moderator r")
    case False
    then show ?thesis
      by (simp add: trace_close_body [OF Some] broadcasts_inside_append)
  next
    case True
    then show ?thesis
      by (cases "filter (truthy (assign n False (reconciled r))) (users r)")
        (simp_all add: trace_close_body [OF Some] broadcasts_inside_append)
  qed
qed

lemma send_error_ok:
  "\<exists>evs. trace (snd (send sock (ErrorMessage e) v)) = trace v @ evs \<and> broadcasts_inside g evs"
  by (simp add: send_def)

lemma run_ok:
  "\<exists>evs. trace (run op w) = trace w @ evs \<and> broadcasts_inside Released evs"
proof (cases op)
  case (Request rq)
  show ?thesis
  proof (cases rq)
    case (WebSocketUpgrade a b c s)
    have hs: "\<exists>evs. trace (snd (handleSession s k n w)) = trace w @ evs
                   \<and> broadcasts_inside Released evs" for k n
    proof -
      let ?v = "emit (Accept s) (w\<lparr>sessions := AList.update s
                  \<lparr>webSocket = s, roomKey = k, userName = n\<rparr> (sessions w)\<rparr>)"
      from gate_ok [of "connect_body n" ?v, OF connect_body_ok]
      obtain evs where evs: "trace (snd (blockConcurrencyWhile (connect_body n) ?v))
          = trace ?v @ evs" "broadcasts_inside Released evs"
        by blast
      have "trace (snd (handleSession s k n w))
          = trace w @ (Accept s # evs @ [delivery (sendThrows w) (Initialize (storage
               (snd (blockConcurrencyWhile (connect_body n) ?v))))
               \<lparr>webSocket = s, roomKey = k, userName = n\<rparr>])"
        by (simp add: handleSession_def Let_def send_def delivery_def evs(1))
          (simp add: gate_eq connect_body_def Let_def split: option.split)
      moreover have "broadcasts_inside Released
          (Accept s # evs @ [delivery (sendThrows w) (Initialize (storage
               (snd (blockConcurrencyWhile (connect_body n) ?v))))
               \<lparr>webSocket = s, roomKey = k, userName = n\<rparr>])"
        by (simp add: broadcasts_inside_append evs(2))
      ultimately show ?thesis
        by blast
    qed
    show ?thesis
      unfolding Request WebSocketUpgrade run.simps upgrade_world
      using hs by (simp split: option.split)
  next
    case (PostInitialize rk m)
    with Request gate_ok [of "initialize_body rk m" w, OF initialize_body_ok] show ?thesis
      by (simp add: split_beta)
  next
    case (PostJoin n)
    with Request gate_ok [of "join_body n" w, OF join_body_ok] show ?thesis
      by (simp add: split_beta)
  next
    case GetSettings
    with Request gate_ok [of get_settings_body w, OF get_settings_body_ok] show ?thesis
      by (simp add: split_beta)
  next
    case (PutSettings n p)
    with Request gate_ok [of "put_settings_body n p" w, OF put_settings_body_ok] show ?thesis
      by (simp add: split_beta)
  next
    case OtherRequest
    with Request show ?thesis by simp
  qed
next
  case (ChannelMessage sock n msg)
  show ?thesis
  proof (cases msg)
    case (Unparseable e)
    with ChannelMessage send_error_ok [of sock e w] show ?thesis
      by (simp add: messageListener_def)
  next
    case (Envelope ty p)
    with ChannelMessage gate_ok [of "update_settings_body n p" w, OF update_settings_body_ok]
    show ?thesis
      by (simp add: messageListener_def handleUpdateSettings_def)
  qed
next
  case (ChannelClose sock n)
  let ?v = "w\<lparr>sessions := AList.delete sock (sessions w)\<rparr>"
  from gate_ok [of "close_body n" ?v, OF close_body_ok] ChannelClose
  show ?thesis
    by (simp add: closeListener_def Let_def)
qed

text \<open>
  C4 (as amended). Every event of a broadcast made by an operation, the call of
  \<open>broadcast\<close> and each delivery to a session, happens while the gate is held, and the
  record it carries is the one last written in that same section; nothing of a broadcast
  happens once the section has ended. The four operations that notify do so as follows,
  in order. Join: the gate is entered, the record is written, \<open>broadcast\<close> is called and
  delivers to every session, the gate is left. Connect: the same after the socket has
  been accepted, and \<open>initialize\<close> goes to the new socket after the gate is left.
  Disconnect of a last session: the same, and when the moderator left and a successor
  is found, a second write and a second broadcast follow before the gate is left.
  UpdateSettings by the moderator, on both paths: the same as Join.
\<close>

theorem broadcast_inside_gate:
  "broadcasts_inside Released (new_events w (run op w))
   \<and> (storage w = Some r \<and> key r \<noteq> [] \<and>
        r' = r\<lparr>users := push_absent n (users r),
                connectedUsers := Some (assign n True (reconciled r))\<rparr>
        \<longrightarrow> new_events w (run (Request (PostJoin n)) w)
              = [GateEnter, StoragePut r', BroadcastCall (UserJoined n r')]
                @ deliveries (UserJoined n r') w @ [GateExit])
   \<and> (storage w = Some r \<and> k \<noteq> [] \<and> n \<noteq> [] \<and>
        r' = r\<lparr>users := push_absent n (users r),
                connectedUsers := Some (assign n True (reconciled r))\<rparr> \<and>
        s = \<lparr>webSocket = server, roomKey = k, userName = n\<rparr>
        \<longrightarrow> new_events w (run (Request (WebSocketUpgrade (Some k) (Some n) client server)) w)
              = [Accept server, GateEnter, StoragePut r',
                 BroadcastCall (UserConnectionStatus n True r')]
                @ deliveries (UserConnectionStatus n True r')
                    (w\<lparr>sessions := AList.update server s (sessions w)\<rparr>)
                @ [GateExit, delivery (sendThrows w) (Initialize (Some r')) s])
   \<and> (storage w = Some r \<and> set (sessions_of n w) \<subseteq> {sock} \<and>
        rd = r\<lparr>connectedUsers := Some (assign n False (reconciled r))\<rparr> \<and>
        wd = w\<lparr>sessions := AList.delete sock (sessions w)\<rparr>
        \<longrightarrow> new_events w (run (ChannelClose sock n) w)
              = [GateEnter, StoragePut rd, BroadcastCall (UserConnectionStatus n False rd)]
                @ deliveries (UserConnectionStatus n False rd) wd
                @ (if n = moderator r
                   then (case filter (truthy (assign n False (reconciled r))) (users r) of
                           [] \<Rightarrow> []
                         | c # cs \<Rightarrow>
                             [StoragePut (rd\<lparr>moderator := c\<rparr>),
                              BroadcastCall (NewModerator c (rd\<lparr>moderator := c\<rparr>))]
                             @ deliveries (NewModerator c (rd\<lparr>moderator := c\<rparr>)) wd)
                   else [])
                @ [GateExit])
   \<and> (storage w = Some r \<and> moderator r = n \<and> rs = r\<lparr>settings := settings r ++ p\<rparr>
        \<longrightarrow> new_events w (run (ChannelMessage sock n (Envelope ''updateSettings'' p)) w)
              = [GateEnter, StoragePut rs, BroadcastCall (SettingsUpdated (settings rs) rs)]
                @ deliveries (SettingsUpdated (settings rs) rs) w @ [GateExit]
            \<and> (key r \<noteq> [] \<longrightarrow>
                 new_events w (run (Request (PutSettings n p)) w)
                   = [GateEnter, StoragePut rs, BroadcastCall (SettingsUpdated (settings rs) rs)]
                     @ deliveries (SettingsUpdated (settings rs) rs) w @ [GateExit]))"
proof (intro conjI impI)
  from run_ok [of op w]
  obtain evs where "trace (run op w) = trace w @ evs" "broadcasts_inside Released evs"
    by blast
  then show "broadcasts_inside Released (new_events w (run op w))"
    by (simp add: new_events_def)
next
  assume "storage w = Some r \<and> key r \<noteq> [] \<and>
        r' = r\<lparr>users := push_absent n (users r),
                connectedUsers := Some (assign n True (reconciled r))\<rparr>"
  then show "new_events w (run (Request (PostJoin n)) w)
              = [GateEnter, StoragePut r', BroadcastCall (UserJoined n r')]
                @ deliveries (UserJoined n r') w @ [GateExit]"
    by (simp add: new_events_def gate_eq join_body_def Let_def)
next
  assume a: "storage w = Some r \<and> k \<noteq> [] \<and> n \<noteq> [] \<and>
        r' = r\<lparr>users := push_absent n (users r),
                connectedUsers := Some (assign n True (reconciled r))\<rparr> \<and>
        s = \<lparr>webSocket = server, roomKey = k, userName = n\<rparr>"
  then have st: "storage w = Some r" and kn: "k \<noteq> []" "n \<noteq> []"
    and r': "r' = r\<lparr>users := push_absent n (users r),
                connectedUsers := Some (assign n True (reconciled r))\<rparr>"
    and s: "s = \<lparr>webSocket = server, roomKey = k, userName = n\<rparr>"
    by blast+
  have "run (Request (WebSocketUpgrade (Some k) (Some n) client server)) w
      = snd (handleSession server k n w)"
    using kn by (simp add: upgrade_world del: fetch.simps(1))
  then show "new_events w (run (Request (WebSocketUpgrade (Some k) (Some n) client server)) w)
              = [Accept server, GateEnter, StoragePut r',
                 BroadcastCall (UserConnectionStatus n True r')]
                @ deliveries (UserConnectionStatus n True r')
                    (w\<lparr>sessions := AList.update server s (sessions w)\<rparr>)
                @ [GateExit, delivery (sendThrows w) (Initialize (Some r')) s]"
    by (simp add: handleSession_world [OF st] new_events_def r' s deliveries_def
        del: run.simps)
next
  assume a: "storage w = Some r \<and> set (sessions_of n w) \<subseteq> {sock} \<and>
        rd = r\<lparr>connectedUsers := Some (assign n False (reconciled r))\<rparr> \<and>
        wd = w\<lparr>sessions := AList.delete sock (sessions w)\<rparr>"
  then have st: "storage w = Some r" and last: "set (sessions_of n w) \<subseteq> {sock}"
    and rd: "rd = r\<lparr>connectedUsers := Some (assign n False (reconciled r))\<rparr>"
    and wd: "wd = w\<lparr>sessions := AList.delete sock (sessions w)\<rparr>"
    by blast+
  define v where "v = emit GateEnter wd"
  have v: "storage v = Some r" "trace v = trace w @ [GateEnter]"
    and dv: "deliveries m v = deliveries m wd" for m
    by (simp_all add: v_def wd st)
  have "run (ChannelClose sock n) w = emit GateExit (snd (close_body n v))"
    using last by (simp add: closeListener_last v_def wd)
  then show "new_events w (run (ChannelClose sock n) w)
              = [GateEnter, StoragePut rd, BroadcastCall (UserConnectionStatus n False rd)]
                @ deliveries (UserConnectionStatus n False rd) wd
                @ (if n = moderator r
                   then (case filter (truthy (assign n False (reconciled r))) (users r) of
                           [] \<Rightarrow> []
                         | c # cs \<Rightarrow>
                             [StoragePut (rd\<lparr>moderator := c\<rparr>),
                              BroadcastCall (NewModerator c (rd\<lparr>moderator := c\<rparr>))]
                             @ deliveries (NewModerator c (rd\<lparr>moderator := c\<rparr>)) wd)
                   else [])
                @ [GateExit]"
    by (simp add: new_events_def trace_close_body [OF v(1)] v(2) dv rd del: run.simps
        cong: list.case_cong)
next
  assume "storage w = Some r \<and> moderator r = n \<and> rs = r\<lparr>settings := settings r ++ p\<rparr>"
  then show "new_events w (run (ChannelMessage sock n (Envelope ''updateSettings'' p)) w)
              = [GateEnter, StoragePut rs, BroadcastCall (SettingsUpdated (settings rs) rs)]
                @ deliveries (SettingsUpdated (settings rs) rs) w @ [GateExit]"
    by (simp add: new_events_def messageListener_def handleUpdateSettings_def gate_eq
        update_settings_body_def Let_def)
next
  assume "storage w = Some r \<and> moderator r = n \<and> rs = r\<lparr>settings := settings r ++ p\<rparr>"
    and "key r \<noteq> []"
  then show "new_events w (run (Request (PutSettings n p)) w)
                   = [GateEnter, StoragePut rs, BroadcastCall (SettingsUpdated (settings rs) rs)]
                     @ deliveries (SettingsUpdated (settings rs) rs) w @ [GateExit]"
    by (simp add: new_events_def gate_eq put_settings_body_def Let_def)
qed

theorem broadcast_inside_gate_witness:
  "broadcasts_inside Released (new_events world_abc (run (ChannelClose 11 ''A'') world_abc))
   \<and> map broadcast_part (new_events world_abc (run (Request (PostJoin ''D'')) world_abc))
       = [False, False, True, True, True, True, False]
   \<and> map broadcast_part
        (new_events world_abc
           (run (Request (WebSocketUpgrade (Some ''K1'') (Some ''D'') 20 21)) world_abc))
       = [False, False, False, True, True, True, True, True, False, False]
   \<and> map broadcast_part (new_events world_abc (run (ChannelClose 11 ''A'') world_abc))
       = [False, False, True, True, True, False, True, True, True, False]
   \<and> map broadcast_part
        (new_events world_abc
           (run (ChannelMessage 11 ''A'' (Envelope ''updateSettings'' [''y'' \<mapsto> 2])) world_abc))
       = [False, False, True, True, True, True, False]"
proof -
  let ?rj = "room_abc\<lparr>users := push_absent ''D'' (users room_abc),
                       connectedUsers := Some (assign ''D'' True (reconciled room_abc))\<rparr>"
  let ?s = "\<lparr>webSocket = 21, roomKey = ''K1'', userName = ''D''\<rparr>"
  let ?rd = "room_abc\<lparr>connectedUsers := Some (assign ''A'' False (reconciled room_abc))\<rparr>"
  let ?wd = "world_abc\<lparr>sessions := AList.delete 11 (sessions world_abc)\<rparr>"
  let ?rs = "room_abc\<lparr>settings := settings room_abc ++ [''y'' \<mapsto> 2]\<rparr>"
  have h: "storage world_abc = Some room_abc" "key room_abc \<noteq> []"
    "moderator room_abc = ''A''" "set (sessions_of ''A'' world_abc) \<subseteq> {11}"
    "''K1'' \<noteq> []" "''D'' \<noteq> []"
    by (simp_all add: world_abc_def room_abc_def sessions_of_def session_def)
  have d3: "carried m \<noteq> None \<Longrightarrow>
      map broadcast_part (deliveries m world_abc) = [True, True, True]"
    for m :: "nat message"
    by (simp add: deliveries_def world_abc_def session_def)
  have d4: "carried m \<noteq> None \<Longrightarrow>
      map broadcast_part
        (deliveries m (world_abc\<lparr>sessions := AList.update 21 ?s (sessions world_abc)\<rparr>))
      = [True, True, True, True]"
    for m :: "nat message"
    by (simp add: deliveries_def world_abc_def session_def)
  have d2: "carried m \<noteq> None \<Longrightarrow> map broadcast_part (deliveries m ?wd) = [True, True]"
    for m :: "nat message"
    by (simp add: deliveries_def world_abc_def session_def AList.delete_eq)
  have cands: "filter (truthy (assign ''A'' False (reconciled room_abc))) (users room_abc)
      = [''B'', ''C'']"
    by (simp add: room_abc_def reconciled_def assign_def truthy_def)
  note t = broadcast_inside_gate [where w = world_abc and r = room_abc]
  from t [where op = "ChannelClose 11 ''A''"]
  have g: "broadcasts_inside Released (new_events world_abc (run (ChannelClose 11 ''A'') world_abc))"
    by (rule conjunct1)
  have j: "map broadcast_part (new_events world_abc (run (Request (PostJoin ''D'')) world_abc))
       = [False, False, True, True, True, True, False]"
    using t [where n = "''D''" and r' = ?rj, THEN conjunct2, THEN conjunct1] h
    by (simp add: d3 del: run.simps)
  have c: "map broadcast_part
        (new_events world_abc
           (run (Request (WebSocketUpgrade (Some ''K1'') (Some ''D'') 20 21)) world_abc))
       = [False, False, False, True, True, True, True, True, False, False]"
    using t [where n = "''D''" and r' = ?rj and k = "''K1''" and s = ?s and server = 21
        and client = 20, THEN conjunct2, THEN conjunct2, THEN conjunct1] h
    by (simp add: d4 del: run.simps)
  have x: "map broadcast_part (new_events world_abc (run (ChannelClose 11 ''A'') world_abc))
       = [False, False, True, True, True, False, True, True, True, False]"
    using t [where n = "''A''" and rd = ?rd and wd = ?wd and sock = 11,
        THEN conjunct2, THEN conjunct2, THEN conjunct2, THEN conjunct1] h
    by (simp add: d2 cands del: run.simps)
  have u: "map broadcast_part
        (new_events world_abc
           (run (ChannelMessage 11 ''A'' (Envelope ''updateSettings'' [''y'' \<mapsto> 2])) world_abc))
       = [False, False, True, True, True, True, False]"
    using t [where n = "''A''" and rs = ?rs and p = "[''y'' \<mapsto> 2]" and sock = 11,
        THEN conjunct2, THEN conjunct2, THEN conjunct2, THEN conjunct2] h
    by (simp add: d3 del: run.simps)
  from g j c x u show ?thesis
    by blast
qed

text \<open>
  C4 as stated fails: in a join on the example room the call of \<open>broadcast\<close> and its
  deliveries do not happen with the gate released.
\<close>

theorem broadcast_outside_gate_counterexample:
  "\<not> broadcasts_released Released
        (new_events world_abc (run (Request (PostJoin ''D'')) world_abc))"
  by (simp add: world_abc_def room_abc_def new_events_def gate_eq join_body_def Let_def)

end
